theory Spec2Isabelle
  imports Main "HOL-Library.AList" "HOL-Library.Sublist"
begin

section \<open>Values held in memory and on disk\<close>

text \<open>
  The program (\<^verbatim>\<open>src/Classes/dlfs.py\<close>) keeps users, items and claims as Python lists of
  dictionaries, read from and written to three JSON files. A value is therefore a JSON
  value as \<^verbatim>\<open>json.load\<close> returns it: \<^verbatim>\<open>None\<close>, a bool, an int, a str, a list, or a dict
  with string keys. A dict is an association list in insertion order (Python dicts keep
  it). Numbers with a fractional part are outside the model. A text is the list of the
  bytes of its UTF-8 encoding: an ASCII character is one byte with the top bit clear, any
  other character a run of bytes with the top bit set. One text occurs inside another
  character by character exactly when it does byte by byte.
\<close>

datatype jval =
    JNull
  | JBool bool
  | JInt int
  | JStr string
  | JList "jval list"
  | JObj "(string \<times> jval) list"

text \<open>The exceptions the modelled code can raise.\<close>

datatype error = FileNotFoundError | TypeError | KeyError | AttributeError

text \<open>
  A call either raises or returns; the state it leaves behind is given next to the
  outcome, because \<^verbatim>\<open>approve_claim\<close> can raise after it has changed memory.
\<close>

datatype 'a outcome = Raised error | Returned 'a

subsection \<open>Python operators on these values\<close>

text \<open>
  \<^verbatim>\<open>a == b\<close>: \<^verbatim>\<open>True == 1\<close> and \<^verbatim>\<open>False == 0\<close> hold in Python, lists are compared
  element by element, dicts by key (the order of the keys does not matter).
\<close>

fun py_eq :: "jval \<Rightarrow> jval \<Rightarrow> bool"
  and py_eq_list :: "jval list \<Rightarrow> jval list \<Rightarrow> bool"
  and py_eq_items :: "(string \<times> jval) list \<Rightarrow> (string \<times> jval) list \<Rightarrow> bool"
where
  "py_eq JNull JNull = True"
| "py_eq (JBool a) (JBool b) = (a = b)"
| "py_eq (JBool a) (JInt n) = (n = (if a then 1 else 0))"
| "py_eq (JInt n) (JBool a) = (n = (if a then 1 else 0))"
| "py_eq (JInt m) (JInt n) = (m = n)"
| "py_eq (JStr s) (JStr t) = (s = t)"
| "py_eq (JList xs) (JList ys) = py_eq_list xs ys"
| "py_eq (JObj kvs) (JObj kws) = (length kvs = length kws \<and> py_eq_items kvs kws)"
| "py_eq _ _ = False"
| "py_eq_list [] [] = True"
| "py_eq_list (x # xs) (y # ys) = (py_eq x y \<and> py_eq_list xs ys)"
| "py_eq_list _ _ = False"
| "py_eq_items [] kws = True"
| "py_eq_items ((k, v) # kvs) kws =
     (case map_of kws k of None \<Rightarrow> False | Some w \<Rightarrow> py_eq v w \<and> py_eq_items kvs kws)"

text \<open>\<^verbatim>\<open>for x in v\<close>: a list gives its elements, a dict its keys, a str its characters.\<close>

definition py_iter :: "jval \<Rightarrow> error + jval list" where
  "py_iter v =
     (case v of
        JList xs \<Rightarrow> Inr xs
      | JObj kvs \<Rightarrow> Inr (map (\<lambda>kv. JStr (fst kv)) kvs)
      | JStr s \<Rightarrow> Inr (map (\<lambda>ch. JStr [ch]) s)
      | _ \<Rightarrow> Inl TypeError)"

text \<open>\<^verbatim>\<open>v[key]\<close> with a string key: only a dict accepts it.\<close>

definition py_getitem :: "jval \<Rightarrow> string \<Rightarrow> error + jval" where
  "py_getitem v key =
     (case v of
        JObj kvs \<Rightarrow> (case map_of kvs key of None \<Rightarrow> Inl KeyError | Some x \<Rightarrow> Inr x)
      | _ \<Rightarrow> Inl TypeError)"

text \<open>
  \<^verbatim>\<open>v[key] = x\<close>: an existing key keeps its place, a new key goes last.
\<close>

definition py_setitem :: "jval \<Rightarrow> string \<Rightarrow> jval \<Rightarrow> error + jval" where
  "py_setitem v key x =
     (case v of
        JObj kvs \<Rightarrow> Inr (JObj (AList.update key x kvs))
      | _ \<Rightarrow> Inl TypeError)"

text \<open>\<^verbatim>\<open>v.append(x)\<close>: only a list has the method.\<close>

definition py_append :: "jval \<Rightarrow> jval \<Rightarrow> error + jval" where
  "py_append v x = (case v of JList xs \<Rightarrow> Inr (JList (xs @ [x])) | _ \<Rightarrow> Inl AttributeError)"

text \<open>\<^verbatim>\<open>needle in hay\<close> on two strings: \<^verbatim>\<open>needle\<close> occurs in \<^verbatim>\<open>hay\<close> as a contiguous run.\<close>

fun str_contains :: "string \<Rightarrow> string \<Rightarrow> bool" where
  "str_contains needle [] = (needle = [])"
| "str_contains needle (ch # hay) =
     (take (length needle) (ch # hay) = needle \<or> str_contains needle hay)"

text \<open>
  \<^verbatim>\<open>key in v\<close> with a string key: a key of the dict, a substring of the str, an element
  of the list.
\<close>

definition py_contains :: "string \<Rightarrow> jval \<Rightarrow> error + bool" where
  "py_contains key v =
     (case v of
        JObj kvs \<Rightarrow> Inr (map_of kvs key \<noteq> None)
      | JStr s \<Rightarrow> Inr (str_contains key s)
      | JList xs \<Rightarrow> Inr (list_ex (\<lambda>x. py_eq x (JStr key)) xs)
      | _ \<Rightarrow> Inl TypeError)"

text \<open>
  \<^verbatim>\<open>s.lower()\<close>. On a text of ASCII characters only, Python turns the letters A to Z
  into a to z and leaves every other character. On any other text the result comes from
  the Unicode case mapping of Python's library, which is not part of the program: it is
  the argument \<open>unicode_lower\<close> of the model, and every function below that calls
  \<^verbatim>\<open>lower()\<close> passes it on.
\<close>

definition case_pairs :: "(char \<times> char) list" where
  "case_pairs = zip ''ABCDEFGHIJKLMNOPQRSTUVWXYZ'' ''abcdefghijklmnopqrstuvwxyz''"

definition lower_ascii_char :: "char \<Rightarrow> char" where
  "lower_ascii_char ch = (case map_of case_pairs ch of None \<Rightarrow> ch | Some l \<Rightarrow> l)"

definition is_ascii :: "char \<Rightarrow> bool" where
  "is_ascii ch = (\<not> digit7 ch)"

definition lower :: "(string \<Rightarrow> string) \<Rightarrow> string \<Rightarrow> string" where
  "lower unicode_lower s =
     (if list_all is_ascii s then map lower_ascii_char s else unicode_lower s)"


text \<open>The decimal digits of a number, as an f-string prints it.\<close>

fun str_nat :: "nat \<Rightarrow> string" where
  "str_nat n =
     (if n < 10 then [''0123456789'' ! n]
      else str_nat (n div 10) @ [''0123456789'' ! (n mod 10)])"

declare str_nat.simps [simp del]

section \<open>Persistence\<close>

text \<open>
  The data directory maps a file name to what the file holds. A file's text is either
  text that \<^verbatim>\<open>json.load\<close> rejects with \<^verbatim>\<open>JSONDecodeError\<close> (an empty file included),
  or the text of a JSON value; \<^verbatim>\<open>json.dump\<close> writes the second kind, and reading it back
  gives the value written.
\<close>

datatype content = Corrupt | Json jval

type_synonym disk = "string \<rightharpoonup> content"

text \<open>Lines 14 to 35: the loop run when the module is loaded.\<close>

definition default_users :: jval where
  "default_users = JList
     [JObj [(''id'', JInt 1), (''name'', JStr ''Admin''), (''email'', JStr ''admin@dlfs.com''),
            (''password'', JStr ''admin123''), (''role'', JStr ''admin'')],
      JObj [(''id'', JInt 2), (''name'', JStr ''User''), (''email'', JStr ''User@dlfs.com''),
            (''password'', JStr ''user123''), (''role'', JStr ''user'')]]"

definition bootstrap_file :: "string \<Rightarrow> disk \<Rightarrow> disk" where
  "bootstrap_file file d =
     (if d file = None
      then (if file = ''users.json'' then d(file \<mapsto> Json default_users)
            else d(file \<mapsto> Json (JList [])))
      else d)"

definition bootstrap :: "disk \<Rightarrow> disk" where
  "bootstrap d =
     bootstrap_file ''claims.json'' (bootstrap_file ''items.json'' (bootstrap_file ''users.json'' d))"

text \<open>\<^verbatim>\<open>load_data\<close>: \<^verbatim>\<open>open(path, "r")\<close> raises when the file is missing.\<close>

definition load_data :: "string \<Rightarrow> disk \<Rightarrow> error + jval" where
  "load_data file_name d =
     (case d file_name of
        None \<Rightarrow> Inl FileNotFoundError
      | Some Corrupt \<Rightarrow> Inr (JList [])
      | Some (Json v) \<Rightarrow> Inr v)"

definition save_data :: "string \<Rightarrow> jval \<Rightarrow> disk \<Rightarrow> disk" where
  "save_data file_name data d = d(file_name \<mapsto> Json data)"

section \<open>Users, items and claims\<close>

text \<open>
  The \<^verbatim>\<open>__dict__\<close> of a fresh \<^verbatim>\<open>User\<close>, \<^verbatim>\<open>ReportedItem\<close> and \<^verbatim>\<open>Claim\<close>, with the
  attributes in the order the constructor assigns them. The number that
  \<^verbatim>\<open>random.randint(1000, 9999)\<close> returns is the argument \<open>rnd\<close>.
\<close>

definition User :: "jval \<Rightarrow> jval \<Rightarrow> jval \<Rightarrow> jval \<Rightarrow> jval \<Rightarrow> jval" where
  "User user_id name email password role =
     JObj [(''user_id'', user_id), (''name'', name), (''email'', email),
           (''password'', password), (''role'', role)]"

definition ReportedItem :: "nat \<Rightarrow> jval \<Rightarrow> jval \<Rightarrow> jval \<Rightarrow> jval \<Rightarrow> jval" where
  "ReportedItem rnd name description location item_type =
     JObj [(''item_id'', JStr (''ITEM-'' @ str_nat rnd)), (''name'', name),
           (''description'', description), (''location'', location),
           (''item_type'', item_type), (''status'', JStr ''reported'')]"

definition Claim :: "nat \<Rightarrow> jval \<Rightarrow> jval \<Rightarrow> jval" where
  "Claim rnd user_id item_id =
     JObj [(''claim_id'', JStr (''CLM-'' @ str_nat rnd)), (''user_id'', user_id),
           (''item_id'', item_id), (''status'', JStr ''pending'')]"

definition randint_1000_9999 :: "nat \<Rightarrow> bool" where
  "randint_1000_9999 rnd = (1000 \<le> rnd \<and> rnd \<le> 9999)"

section \<open>The controller\<close>

record controller =
  users :: jval
  items :: jval
  claims :: jval

text \<open>\<^verbatim>\<open>DLFSController.__init__\<close>\<close>

definition init_controller :: "disk \<Rightarrow> error + controller" where
  "init_controller d =
     (case load_data ''users.json'' d of
        Inl e \<Rightarrow> Inl e
      | Inr us \<Rightarrow>
          (case load_data ''items.json'' d of
             Inl e \<Rightarrow> Inl e
           | Inr its \<Rightarrow>
               (case load_data ''claims.json'' d of
                  Inl e \<Rightarrow> Inl e
                | Inr cls \<Rightarrow> Inr \<lparr>users = us, items = its, claims = cls\<rparr>)))"

definition save_all :: "controller \<Rightarrow> disk \<Rightarrow> disk" where
  "save_all c d =
     save_data ''claims.json'' (claims c)
       (save_data ''items.json'' (items c) (save_data ''users.json'' (users c) d))"

subsection \<open>login\<close>

fun login_scan :: "jval list \<Rightarrow> string \<Rightarrow> string \<Rightarrow> error + jval option" where
  "login_scan [] email password = Inr None"
| "login_scan (user # rest) email password =
     (case py_contains ''email'' user of
        Inl e \<Rightarrow> Inl e
      | Inr has_email \<Rightarrow>
          if \<not> has_email then login_scan rest email password
          else
            (case py_contains ''password'' user of
               Inl e \<Rightarrow> Inl e
             | Inr has_password \<Rightarrow>
                 if \<not> has_password then login_scan rest email password
                 else
                   (case py_getitem user ''email'' of
                      Inl e \<Rightarrow> Inl e
                    | Inr stored_email \<Rightarrow>
                        if \<not> py_eq stored_email (JStr email) then login_scan rest email password
                        else
                          (case py_getitem user ''password'' of
                             Inl e \<Rightarrow> Inl e
                           | Inr stored_password \<Rightarrow>
                               if py_eq stored_password (JStr password) then Inr (Some user)
                               else login_scan rest email password))))"

definition login :: "string \<Rightarrow> string \<Rightarrow> controller \<Rightarrow> error + jval option" where
  "login email password c =
     (case py_iter (users c) of
        Inl e \<Rightarrow> Inl e
      | Inr us \<Rightarrow> login_scan us email password)"

subsection \<open>add\_user, in the controller and in the menu\<close>

definition add_user ::
  "jval \<Rightarrow> jval \<Rightarrow> jval \<Rightarrow> jval \<Rightarrow> jval \<Rightarrow> controller \<Rightarrow> disk \<Rightarrow> unit outcome \<times> controller \<times> disk"
where
  "add_user user_id name email password role c d =
     (let new_user = User user_id name email password role in
      case load_data ''users.json'' d of
        Inl e \<Rightarrow> (Raised e, c, d)
      | Inr us \<Rightarrow>
          (case py_append us new_user of
             Inl e \<Rightarrow> (Raised e, c, d)
           | Inr us' \<Rightarrow>
               (let d' = save_data ''users.json'' us' d in
                case load_data ''users.json'' d' of
                  Inl e \<Rightarrow> (Raised e, c, d')
                | Inr loaded \<Rightarrow> (Returned (), c\<lparr>users := loaded\<rparr>, d'))))"

text \<open>
  \<^verbatim>\<open>DLFSUI.add_user\<close>: the five answers typed at the prompts are strings; the role is
  put in lower case and replaced by \<^verbatim>\<open>"user"\<close> unless it is \<^verbatim>\<open>"user"\<close> or \<^verbatim>\<open>"admin"\<close>.
\<close>

definition ui_role :: "(string \<Rightarrow> string) \<Rightarrow> string \<Rightarrow> string" where
  "ui_role unicode_lower typed =
     (let role = lower unicode_lower typed
      in if role \<notin> set [''user'', ''admin''] then ''user'' else role)"

definition ui_add_user ::
  "(string \<Rightarrow> string) \<Rightarrow> string \<Rightarrow> string \<Rightarrow> string \<Rightarrow> string \<Rightarrow> string
     \<Rightarrow> controller \<Rightarrow> disk \<Rightarrow> unit outcome \<times> controller \<times> disk"
where
  "ui_add_user unicode_lower typed_id name email password typed_role c d =
     add_user (JStr typed_id) (JStr name) (JStr email) (JStr password)
       (JStr (ui_role unicode_lower typed_role)) c d"

subsection \<open>report\_item\<close>

definition report_item ::
  "nat \<Rightarrow> jval \<Rightarrow> jval \<Rightarrow> jval \<Rightarrow> jval \<Rightarrow> jval \<Rightarrow> controller \<Rightarrow> disk
     \<Rightarrow> string outcome \<times> controller \<times> disk"
where
  "report_item rnd name description location item_type user_id c d =
     (let item = ReportedItem rnd name description location item_type in
      case py_append (items c) item of
        Inl e \<Rightarrow> (Raised e, c, d)
      | Inr its \<Rightarrow>
          (let c' = c\<lparr>items := its\<rparr> in
           (Returned (''ITEM-'' @ str_nat rnd), c', save_all c' d)))"

subsection \<open>The three searches\<close>






subsection \<open>claim\_item and approve\_claim\<close>

definition claim_item ::
  "nat \<Rightarrow> jval \<Rightarrow> jval \<Rightarrow> controller \<Rightarrow> disk \<Rightarrow> string outcome \<times> controller \<times> disk"
where
  "claim_item rnd user_id item_id c d =
     (let claim = Claim rnd user_id item_id in
      case py_append (claims c) claim of
        Inl e \<Rightarrow> (Raised e, c, d)
      | Inr cls \<Rightarrow>
          (let c' = c\<lparr>claims := cls\<rparr> in
           (Returned (''CLM-'' @ str_nat rnd), c', save_all c' d)))"

text \<open>
  The inner loop of \<^verbatim>\<open>approve_claim\<close> over the items: the result is the exception
  raised, if any, and the list as the loop has left it (the items before the failing
  one are already updated).
\<close>

fun mark_items :: "jval \<Rightarrow> jval list \<Rightarrow> error option \<times> jval list" where
  "mark_items claim [] = (None, [])"
| "mark_items claim (item # rest) =
     (case py_getitem item ''item_id'' of
        Inl e \<Rightarrow> (Some e, item # rest)
      | Inr item_id \<Rightarrow>
          (case py_getitem claim ''item_id'' of
             Inl e \<Rightarrow> (Some e, item # rest)
           | Inr claimed_id \<Rightarrow>
               if py_eq item_id claimed_id
               then
                 (case py_setitem item ''status'' (JStr ''claimed'') of
                    Inl e \<Rightarrow> (Some e, item # rest)
                  | Inr item' \<Rightarrow>
                      (case mark_items claim rest of (r, rest') \<Rightarrow> (r, item' # rest')))
               else (case mark_items claim rest of (r, rest') \<Rightarrow> (r, item # rest'))))"

text \<open>
  \<^verbatim>\<open>for item in self.items\<close> when \<^verbatim>\<open>self.items\<close> is a list changes the elements in
  place; anything else that can be iterated yields strings, which the loop body cannot
  change.
\<close>

definition update_items :: "jval \<Rightarrow> jval \<Rightarrow> error option \<times> jval" where
  "update_items claim its =
     (case its of
        JList xs \<Rightarrow> (case mark_items claim xs of (r, xs') \<Rightarrow> (r, JList xs'))
      | _ \<Rightarrow>
          (case py_iter its of
             Inl e \<Rightarrow> (Some e, its)
           | Inr ys \<Rightarrow> (fst (mark_items claim ys), its)))"

text \<open>
  The outer loop over the claims: \<open>seen\<close> holds the claims already passed over, none of
  which had the wanted id.
\<close>

fun approve_scan ::
  "string \<Rightarrow> jval list \<Rightarrow> jval list \<Rightarrow> controller \<Rightarrow> disk \<Rightarrow> bool outcome \<times> controller \<times> disk"
where
  "approve_scan claim_id seen [] c d = (Returned False, c, d)"
| "approve_scan claim_id seen (claim # rest) c d =
     (case py_getitem claim ''claim_id'' of
        Inl e \<Rightarrow> (Raised e, c, d)
      | Inr stored_id \<Rightarrow>
          if py_eq stored_id (JStr claim_id)
          then
            (case py_setitem claim ''status'' (JStr ''approved'') of
               Inl e \<Rightarrow> (Raised e, c, d)
             | Inr claim' \<Rightarrow>
                 (let c1 = c\<lparr>claims := JList (seen @ claim' # rest)\<rparr> in
                  case update_items claim' (items c1) of
                    (Some e, its) \<Rightarrow> (Raised e, c1\<lparr>items := its\<rparr>, d)
                  | (None, its) \<Rightarrow>
                      (let c2 = c1\<lparr>items := its\<rparr> in (Returned True, c2, save_all c2 d))))
          else approve_scan claim_id (seen @ [claim]) rest c d)"

definition approve_claim ::
  "string \<Rightarrow> controller \<Rightarrow> disk \<Rightarrow> bool outcome \<times> controller \<times> disk"
where
  "approve_claim claim_id c d =
     (case py_iter (claims c) of
        Inl e \<Rightarrow> (Raised e, c, d)
      | Inr cls \<Rightarrow> approve_scan claim_id [] cls c d)"

section \<open>Notions used to state the properties\<close>

text \<open>The value a record holds under a key, if it is a record and has the key.\<close>

definition field :: "jval \<Rightarrow> string \<Rightarrow> jval option" where
  "field v key = (case v of JObj kvs \<Rightarrow> map_of kvs key | _ \<Rightarrow> None)"

definition has_key :: "string \<Rightarrow> jval \<Rightarrow> bool" where
  "has_key key v = (field v key \<noteq> None)"


fun is_record :: "jval \<Rightarrow> bool" where
  "is_record (JObj kvs) = True"
| "is_record v = False"

text \<open>An account whose email and password are exactly the given strings.\<close>

definition credentials_match :: "string \<Rightarrow> string \<Rightarrow> jval \<Rightarrow> bool" where
  "credentials_match email password user =
     (field user ''email'' = Some (JStr email) \<and> field user ''password'' = Some (JStr password))"






definition is_digit :: "char \<Rightarrow> bool" where
  "is_digit ch = (ch \<in> set ''0123456789'')"

text \<open>A claim that carries the given claim id.\<close>

definition claim_has_id :: "string \<Rightarrow> jval \<Rightarrow> bool" where
  "claim_has_id claim_id claim = (field claim ''claim_id'' = Some (JStr claim_id))"

text \<open>An item whose id equals (in Python's sense) the given one.\<close>

definition item_has_id :: "jval \<Rightarrow> jval \<Rightarrow> bool" where
  "item_has_id wanted item =
     (case field item ''item_id'' of Some i \<Rightarrow> py_eq i wanted | None \<Rightarrow> False)"

text \<open>The record with its status replaced.\<close>

definition with_status :: "string \<Rightarrow> jval \<Rightarrow> jval" where
  "with_status st v = (case v of JObj kvs \<Rightarrow> JObj (AList.update ''status'' (JStr st) kvs) | _ \<Rightarrow> v)"

definition mark_claimed :: "jval \<Rightarrow> jval \<Rightarrow> jval" where
  "mark_claimed wanted item = (if item_has_id wanted item then with_status ''claimed'' item else item)"

text \<open>Memory and the three files hold the same collections.\<close>

definition synced :: "controller \<Rightarrow> disk \<Rightarrow> bool" where
  "synced c d =
     (d ''users.json'' = Some (Json (users c)) \<and>
      d ''items.json'' = Some (Json (items c)) \<and>
      d ''claims.json'' = Some (Json (claims c)))"

subsection \<open>Sample stores\<close>

text \<open>
  Where a closed example needs the library's case mapping, this one stands in for it. All
  text in the examples is ASCII, for which the mapping is never consulted.
\<close>

definition ascii_only_lower :: "string \<Rightarrow> string" where
  "ascii_only_lower s = map lower_ascii_char s"

text \<open>The store right after the first start, and the data directory it was read from.\<close>

definition fresh_disk :: disk where
  "fresh_disk = bootstrap Map.empty"

definition fresh_store :: controller where
  "fresh_store = \<lparr>users = default_users, items = JList [], claims = JList []\<rparr>"

text \<open>
  A store after two reports and one claim: a wallet reported with the number 1111, keys
  reported with 2222, and a claim on the wallet by the user with id 2, numbered 1234.
\<close>

definition sample_store :: controller where
  "sample_store =
     \<lparr>users = default_users,
      items = JList
        [ReportedItem 1111 (JStr ''Wallet'') (JStr ''Black leather'') (JStr ''Library'') (JStr ''lost''),
         ReportedItem 2222 (JStr ''Keys'') (JStr ''Car keys'') (JStr ''Gym'') (JStr ''found'')],
      claims = JList [Claim 1234 (JInt 2) (JStr ''ITEM-1111'')]\<rparr>"

definition sample_disk :: disk where
  "sample_disk = save_all sample_store fresh_disk"

text \<open>
  A store in which the claim on the wallet is already approved and the wallet has since
  been given back.
\<close>

definition returned_store :: controller where
  "returned_store =
     sample_store\<lparr>
       items := JList
         [JObj [(''item_id'', JStr ''ITEM-1111''), (''name'', JStr ''Wallet''),
                (''description'', JStr ''Black leather''), (''location'', JStr ''Library''),
                (''item_type'', JStr ''lost''), (''status'', JStr ''returned'')]],
       claims := JList
         [JObj [(''claim_id'', JStr ''CLM-1234''), (''user_id'', JInt 2),
                (''item_id'', JStr ''ITEM-1111''), (''status'', JStr ''approved'')]]\<rparr>"

text \<open>
  The sample store after a second claim, on the keys, for which the random number was
  1234 again.
\<close>

definition collided_store :: controller where
  "collided_store =
     sample_store\<lparr>claims := JList
        [Claim 1234 (JInt 2) (JStr ''ITEM-1111''), Claim 1234 (JInt 2) (JStr ''ITEM-2222'')]\<rparr>"

section \<open>Auxiliary facts\<close>

subsection \<open>Bootstrap\<close>

lemma bootstrap_files_exist:
  "bootstrap d ''users.json'' \<noteq> None \<and> bootstrap d ''items.json'' \<noteq> None \<and>
   bootstrap d ''claims.json'' \<noteq> None"
  by (simp add: bootstrap_def bootstrap_file_def)

lemma bootstrap_file_noop: "d f \<noteq> None \<Longrightarrow> bootstrap_file f d = d"
  by (auto simp add: bootstrap_file_def)

lemma bootstrap_twice: "bootstrap (bootstrap d) = bootstrap d"
proof -
  have "bootstrap (bootstrap d) =
      bootstrap_file ''claims.json''
        (bootstrap_file ''items.json'' (bootstrap_file ''users.json'' (bootstrap d)))"
    by (simp add: bootstrap_def)
  also have "\<dots> = bootstrap d"
    using bootstrap_files_exist[of d] by (simp add: bootstrap_file_noop)
  finally show ?thesis .
qed

subsection \<open>Operators, scans and loops\<close>

lemma py_eq_JStr: "py_eq v (JStr s) = (v = JStr s)"
  by (cases v) auto



lemma credentials_match_JObj:
  "credentials_match email password (JObj kvs) =
     (map_of kvs ''email'' = Some (JStr email) \<and> map_of kvs ''password'' = Some (JStr password))"
  by (simp add: credentials_match_def field_def)


lemma mark_claimed_JObj:
  "map_of kvs ''item_id'' = Some i \<Longrightarrow>
   mark_claimed wanted (JObj kvs) =
     (if py_eq i wanted then JObj (AList.update ''status'' (JStr ''claimed'') kvs) else JObj kvs)"
  by (simp add: mark_claimed_def item_has_id_def with_status_def field_def)

lemma login_scan_find:
  "list_all is_record us \<Longrightarrow> login_scan us email password = Inr (find (credentials_match email password) us)"
proof (induction us)
  case Nil
  then show ?case by simp
next
  case (Cons u us)
  then obtain kvs where u: "u = JObj kvs" by (cases u) auto
  from Cons have IH: "login_scan us email password = Inr (find (credentials_match email password) us)" by simp
  show ?case
    by (auto simp: u IH py_contains_def py_getitem_def credentials_match_JObj py_eq_JStr)
qed


lemma mark_items_map:
  assumes "list_all (has_key ''item_id'') its" and "py_getitem claim ''item_id'' = Inr wanted"
  shows "mark_items claim its = (None, map (mark_claimed wanted) its)"
  using assms(1)
proof (induction its)
  case Nil
  then show ?case by simp
next
  case (Cons it its)
  from Cons.prems obtain i where i: "field it ''item_id'' = Some i"
    by (auto simp: has_key_def)
  then obtain kvs where it: "it = JObj kvs" and m: "map_of kvs ''item_id'' = Some i"
    by (cases it) (auto simp: field_def)
  from Cons have IH: "mark_items claim its = (None, map (mark_claimed wanted) its)" by simp
  have g: "py_getitem (JObj kvs) ''item_id'' = Inr i" by (simp add: py_getitem_def m)
  show ?case
    by (simp add: it g IH assms(2) py_setitem_def mark_claimed_JObj[OF m])
qed

lemma approve_scan_skip:
  "list_all (has_key ''claim_id'') pre \<Longrightarrow> list_all (\<lambda>cl. \<not> claim_has_id claim_id cl) pre \<Longrightarrow>
   approve_scan claim_id seen (pre @ rest) c d = approve_scan claim_id (seen @ pre) rest c d"
proof (induction pre arbitrary: seen)
  case Nil
  then show ?case by simp
next
  case (Cons cl pre)
  from Cons.prems obtain i where i: "field cl ''claim_id'' = Some i" "i \<noteq> JStr claim_id"
    by (auto simp: has_key_def claim_has_id_def)
  then obtain kvs where cl: "cl = JObj kvs" by (cases cl) (auto simp: field_def)
  from Cons have IH: "approve_scan claim_id (seen @ [cl]) (pre @ rest) c d = approve_scan claim_id ((seen @ [cl]) @ pre) rest c d"
    by simp
  from i cl show ?case
    using IH by (simp add: py_getitem_def field_def py_eq_JStr)
qed

lemma approve_scan_hit:
  assumes "claim_has_id claim_id claim"
    and "field claim ''item_id'' = Some wanted"
    and "items c = JList its"
    and "list_all (has_key ''item_id'') its"
  shows "approve_scan claim_id seen (claim # rest) c d =
     (Returned True,
      c\<lparr>claims := JList (seen @ with_status ''approved'' claim # rest),
        items := JList (map (mark_claimed wanted) its)\<rparr>,
      save_all (c\<lparr>claims := JList (seen @ with_status ''approved'' claim # rest),
        items := JList (map (mark_claimed wanted) its)\<rparr>) d)"
proof -
  from assms(1) obtain kvs where cl: "claim = JObj kvs" and cid: "map_of kvs ''claim_id'' = Some (JStr claim_id)"
    by (cases claim) (auto simp: claim_has_id_def field_def)
  from assms(2) cl have w: "map_of kvs ''item_id'' = Some wanted" by (simp add: field_def)
  have g: "py_getitem (JObj (AList.update ''status'' (JStr ''approved'') kvs)) ''item_id'' = Inr wanted"
    using w by (simp add: py_getitem_def update_conv')
  show ?thesis
    using mark_items_map[OF assms(4) g]
    by (simp add: cl cid py_getitem_def py_setitem_def with_status_def update_items_def assms(3) Let_def)
qed

lemma approve_claim_found:
  assumes "claims c = JList (pre @ claim # rest)"
    and "list_all (has_key ''claim_id'') pre"
    and "list_all (\<lambda>cl. \<not> claim_has_id claim_id cl) pre"
    and "claim_has_id claim_id claim"
    and "field claim ''item_id'' = Some wanted"
    and "items c = JList its"
    and "list_all (has_key ''item_id'') its"
  shows "approve_claim claim_id c d =
     (Returned True,
      c\<lparr>claims := JList (pre @ with_status ''approved'' claim # rest),
        items := JList (map (mark_claimed wanted) its)\<rparr>,
      save_all (c\<lparr>claims := JList (pre @ with_status ''approved'' claim # rest),
        items := JList (map (mark_claimed wanted) its)\<rparr>) d)"
proof -
  have "approve_claim claim_id c d = approve_scan claim_id [] (pre @ claim # rest) c d"
    by (simp add: approve_claim_def py_iter_def assms(1))
  also have "\<dots> = approve_scan claim_id ([] @ pre) (claim # rest) c d"
    by (rule approve_scan_skip[OF assms(2) assms(3)])
  also have "\<dots> = (Returned True,
      c\<lparr>claims := JList (pre @ with_status ''approved'' claim # rest),
        items := JList (map (mark_claimed wanted) its)\<rparr>,
      save_all (c\<lparr>claims := JList (pre @ with_status ''approved'' claim # rest),
        items := JList (map (mark_claimed wanted) its)\<rparr>) d)"
    using approve_scan_hit[OF assms(4) assms(5) assms(6) assms(7), of "[] @ pre" rest d]
    by (simp only: append_Nil)
  finally show ?thesis .
qed

lemma str_nat_four:
  assumes "1000 \<le> n" and "n \<le> 9999"
  shows "str_nat n = [''0123456789'' ! (n div 1000), ''0123456789'' ! (n div 100 mod 10),
                      ''0123456789'' ! (n div 10 mod 10), ''0123456789'' ! (n mod 10)]"
proof -
  have b1: "n div 10 div 10 = n div 100"
    using div_mult2_eq[of n 10 10] by simp
  have b2: "n div 100 div 10 = n div 1000"
    using div_mult2_eq[of n 100 10] by simp
  have a: "\<not> n < 10" "\<not> n div 10 < 10" "\<not> n div 10 div 10 < 10" "n div 10 div 10 div 10 < 10"
    using assms by (simp_all add: b1 b2)
  have "str_nat n = str_nat (n div 10) @ [''0123456789'' ! (n mod 10)]"
    using a(1) by (subst str_nat.simps) simp
  also have "str_nat (n div 10) = str_nat (n div 10 div 10) @ [''0123456789'' ! (n div 10 mod 10)]"
    using a(2) by (subst str_nat.simps) simp
  also have "str_nat (n div 10 div 10) = str_nat (n div 10 div 10 div 10) @ [''0123456789'' ! (n div 10 div 10 mod 10)]"
    using a(3) by (subst str_nat.simps) simp
  also have "str_nat (n div 10 div 10 div 10) = [''0123456789'' ! (n div 10 div 10 div 10)]"
    using a(4) by (subst str_nat.simps) simp
  finally have "str_nat n = [''0123456789'' ! (n div 10 div 10 div 10), ''0123456789'' ! (n div 10 div 10 mod 10),
                      ''0123456789'' ! (n div 10 mod 10), ''0123456789'' ! (n mod 10)]"
    by (simp only: append_Cons append_Nil)
  then show ?thesis by (simp only: b1 b2)
qed

lemma digit_nth: "k < 10 \<Longrightarrow> is_digit (''0123456789'' ! k)"
  unfolding is_digit_def by (rule nth_mem) simp

lemma str_nat_digits:
  assumes "1000 \<le> n" and "n \<le> 9999"
  shows "length (str_nat n) = 4 \<and> list_all is_digit (str_nat n) \<and> hd (str_nat n) \<noteq> CHR ''0''"
proof -
  have k: "n div 1000 < 10" "1 \<le> n div 1000" using assms by simp_all
  have "n div 1000 \<in> {1,2,3,4,5,6,7,8,9}" using k by auto
  then have h: "''0123456789'' ! (n div 1000) \<noteq> CHR ''0''" by auto
  define w where "w = ''0123456789'' ! (n div 1000)"
  define x where "x = ''0123456789'' ! (n div 100 mod 10)"
  define y where "y = ''0123456789'' ! (n div 10 mod 10)"
  define z where "z = ''0123456789'' ! (n mod 10)"
  have d: "is_digit w" "is_digit x" "is_digit y" "is_digit z"
    unfolding w_def x_def y_def z_def using k(1) by (simp_all only: digit_nth mod_less_divisor zero_less_numeral)
  have s: "str_nat n = [w, x, y, z]"
    unfolding w_def x_def y_def z_def by (rule str_nat_four[OF assms])
  have "w \<noteq> CHR ''0''" unfolding w_def by (rule h)
  then show ?thesis using d by (simp add: s)
qed


subsection \<open>Lower case and letter case ignored\<close>















subsection \<open>Memory and files in step\<close>

lemma synced_save_all: "synced c (save_all c d)"
  by (simp add: synced_def save_all_def save_data_def)

lemma approve_scan_synced:
  "approve_scan claim_id seen cls c d = (Returned True, c', d') \<Longrightarrow> synced c' d'"
proof (induction cls arbitrary: seen)
  case Nil
  then show ?case by simp
next
  case (Cons cl cls)
  then show ?case
    by (auto simp: Let_def synced_save_all split: sum.splits if_splits prod.splits option.splits)
qed

lemma triple_collapse: "fst p = r \<Longrightarrow> p = (r, fst (snd p), snd (snd p))"
  by (cases p) auto

subsection \<open>The role check of the menu\<close>

lemma ui_role_cases:
  "ui_role ul typed = (if lower ul typed = ''admin'' then ''admin'' else ''user'')"
  by (simp add: ui_role_def Let_def)

subsection \<open>The sample numbers in decimal\<close>

lemma str_1111: "str_nat 1111 = ''1111''"
  using str_nat_four[of 1111] by simp

lemma str_2222: "str_nat 2222 = ''2222''"
  using str_nat_four[of 2222] by simp

lemma str_1234: "str_nat 1234 = ''1234''"
  using str_nat_four[of 1234] by simp

lemma str_3333: "str_nat 3333 = ''3333''"
  using str_nat_four[of 3333] by simp

lemma str_5678: "str_nat 5678 = ''5678''"
  using str_nat_four[of 5678] by simp

subsection \<open>What the operations return, and the sample store\<close>

lemma add_user_returns:
  "load_data ''users.json'' d = Inr (JList us) \<Longrightarrow>
   fst (add_user user_id name email password role c d) = Returned ()"
  by (simp add: add_user_def Let_def py_append_def save_data_def load_data_def)

lemma report_item_returns:
  "items c = JList its \<Longrightarrow>
   fst (report_item rnd name description location item_type reporter_id c d) = Returned (''ITEM-'' @ str_nat rnd)"
  by (simp add: report_item_def Let_def py_append_def)

lemma claim_item_returns:
  "claims c = JList cls \<Longrightarrow>
   fst (claim_item rnd user_id item_id c d) = Returned (''CLM-'' @ str_nat rnd)"
  by (simp add: claim_item_def Let_def py_append_def)

lemma sample_items:
  "items sample_store = JList
     [ReportedItem 1111 (JStr ''Wallet'') (JStr ''Black leather'') (JStr ''Library'') (JStr ''lost''),
      ReportedItem 2222 (JStr ''Keys'') (JStr ''Car keys'') (JStr ''Gym'') (JStr ''found'')]"
  by (simp add: sample_store_def)

lemma sample_claims: "claims sample_store = JList ([] @ Claim 1234 (JInt 2) (JStr ''ITEM-1111'') # [])"
  by (simp add: sample_store_def)

lemma sample_users_file: "load_data ''users.json'' sample_disk = Inr default_users"
  by (simp add: sample_disk_def save_all_def save_data_def load_data_def sample_store_def)

lemma sample_items_have_ids:
  "list_all (has_key ''item_id'')
     [ReportedItem 1111 (JStr ''Wallet'') (JStr ''Black leather'') (JStr ''Library'') (JStr ''lost''),
      ReportedItem 2222 (JStr ''Keys'') (JStr ''Car keys'') (JStr ''Gym'') (JStr ''found'')]"
  by (simp add: has_key_def field_def ReportedItem_def)

lemma sample_claim_id: "claim_has_id ''CLM-1234'' (Claim 1234 (JInt 2) (JStr ''ITEM-1111''))"
  by (simp add: claim_has_id_def field_def Claim_def str_1234)

lemma sample_claim_item: "field (Claim 1234 (JInt 2) (JStr ''ITEM-1111'')) ''item_id'' = Some (JStr ''ITEM-1111'')"
  by (simp add: field_def Claim_def)

lemma collided_claims:
  "claims collided_store =
     JList ([] @ Claim 1234 (JInt 2) (JStr ''ITEM-1111'') # [Claim 1234 (JInt 2) (JStr ''ITEM-2222'')])"
  by (simp add: collided_store_def)

lemma collided_items:
  "items collided_store = JList
     [ReportedItem 1111 (JStr ''Wallet'') (JStr ''Black leather'') (JStr ''Library'') (JStr ''lost''),
      ReportedItem 2222 (JStr ''Keys'') (JStr ''Car keys'') (JStr ''Gym'') (JStr ''found'')]"
  by (simp add: collided_store_def sample_store_def)

subsection \<open>Statuses\<close>

lemma save_all_twice: "save_all c2 (save_all c1 d) = save_all c2 d"
  by (rule ext) (simp add: save_all_def save_data_def)

lemma update_twice: "AList.update k v (AList.update k v al) = AList.update k v al"
  by (rule update_triv) (simp add: update_conv')

lemma with_status_twice: "with_status st (with_status st v) = with_status st v"
  by (cases v) (simp_all add: with_status_def update_twice)

lemma field_with_status:
  "field (with_status st v) key = (if is_record v \<and> key = ''status'' then Some (JStr st) else field v key)"
  by (cases v) (simp_all add: with_status_def field_def update_conv')

lemma item_has_id_with_status: "item_has_id wanted (with_status st it) = item_has_id wanted it"
  by (simp add: item_has_id_def field_with_status)

lemma claim_has_id_with_status: "claim_has_id claim_id (with_status st cl) = claim_has_id claim_id cl"
  by (simp add: claim_has_id_def field_with_status)

lemma has_key_mark_claimed: "has_key ''item_id'' (mark_claimed wanted it) = has_key ''item_id'' it"
  by (simp add: has_key_def mark_claimed_def field_with_status)

lemma mark_claimed_twice: "mark_claimed wanted (mark_claimed wanted it) = mark_claimed wanted it"
  by (simp add: mark_claimed_def item_has_id_with_status with_status_twice)

lemma item_has_id_record: "item_has_id wanted it \<Longrightarrow> is_record it"
  by (cases it) (simp_all add: item_has_id_def field_def)

lemma mark_claimed_status:
  "item_has_id wanted it \<Longrightarrow> field (mark_claimed wanted it) ''status'' = Some (JStr ''claimed'')"
  by (simp add: mark_claimed_def field_with_status item_has_id_record)

lemma mark_claimed_other: "\<not> item_has_id wanted it \<Longrightarrow> mark_claimed wanted it = it"
  by (simp add: mark_claimed_def)

section \<open>The properties\<close>

text \<open>
  C1. The controller's \<^verbatim>\<open>add_user\<close> does not look at the role: when the users file
  holds a list, the record appended to it, written back and reloaded into memory carries
  the role exactly as given. The check is in the menu's \<^verbatim>\<open>add_user\<close>, which calls the
  controller with \<^verbatim>\<open>"admin"\<close> when the typed role in lower case is \<^verbatim>\<open>"admin"\<close> and
  with \<^verbatim>\<open>"user"\<close> for every other typed role, whatever the library's case mapping does
  to text outside ASCII.
\<close>

theorem C1_role_checked_in_menu_only:
  assumes "load_data ''users.json'' d = Inr (JList us)"
  shows "add_user user_id name email password role c d =
           (Returned (),
            c\<lparr>users := JList (us @ [JObj [(''user_id'', user_id), (''name'', name), (''email'', email),
                                           (''password'', password), (''role'', role)]])\<rparr>,
            d(''users.json'' \<mapsto> Json (JList (us @ [JObj [(''user_id'', user_id), (''name'', name),
                                           (''email'', email), (''password'', password), (''role'', role)]])))) \<and>
         ui_add_user unicode_lower typed_id typed_name typed_email typed_password typed_role c d =
           add_user (JStr typed_id) (JStr typed_name) (JStr typed_email) (JStr typed_password)
             (JStr (if lower unicode_lower typed_role = ''admin'' then ''admin'' else ''user'')) c d"
  using assms
  by (simp add: add_user_def ui_add_user_def ui_role_cases User_def py_append_def save_data_def load_data_def Let_def)

text \<open>Through the menu, on the fresh store, the typed role \<^verbatim>\<open>Superuser\<close> is stored as \<^verbatim>\<open>user\<close>.\<close>

theorem C1_role_checked_in_menu_only_witness:
  "load_data ''users.json'' fresh_disk = Inr (JList
        [JObj [(''id'', JInt 1), (''name'', JStr ''Admin''), (''email'', JStr ''admin@dlfs.com''),
               (''password'', JStr ''admin123''), (''role'', JStr ''admin'')],
         JObj [(''id'', JInt 2), (''name'', JStr ''User''), (''email'', JStr ''User@dlfs.com''),
               (''password'', JStr ''user123''), (''role'', JStr ''user'')]]) \<and>
   users (fst (snd (ui_add_user ascii_only_lower ''3'' ''X'' ''x@x.com'' ''pw'' ''Superuser''
                      fresh_store fresh_disk))) =
     JList
        [JObj [(''id'', JInt 1), (''name'', JStr ''Admin''), (''email'', JStr ''admin@dlfs.com''),
               (''password'', JStr ''admin123''), (''role'', JStr ''admin'')],
         JObj [(''id'', JInt 2), (''name'', JStr ''User''), (''email'', JStr ''User@dlfs.com''),
               (''password'', JStr ''user123''), (''role'', JStr ''user'')],
         JObj [(''user_id'', JStr ''3''), (''name'', JStr ''X''), (''email'', JStr ''x@x.com''),
               (''password'', JStr ''pw''), (''role'', JStr ''user'')]]"
proof -
  have h: "load_data ''users.json'' fresh_disk = Inr (JList
        [JObj [(''id'', JInt 1), (''name'', JStr ''Admin''), (''email'', JStr ''admin@dlfs.com''),
               (''password'', JStr ''admin123''), (''role'', JStr ''admin'')],
         JObj [(''id'', JInt 2), (''name'', JStr ''User''), (''email'', JStr ''User@dlfs.com''),
               (''password'', JStr ''user123''), (''role'', JStr ''user'')]])"
    by (simp add: fresh_disk_def load_data_def bootstrap_def bootstrap_file_def default_users_def)
  have l: "lower ascii_only_lower ''Superuser'' \<noteq> ''admin''"
    by (simp add: lower_def is_ascii_def lower_ascii_char_def case_pairs_def)
  show ?thesis
    using h C1_role_checked_in_menu_only[OF h, of "JStr ''3''" "JStr ''X''" "JStr ''x@x.com''" "JStr ''pw''"
        "JStr ''user''" fresh_store ascii_only_lower "''3''" "''X''" "''x@x.com''" "''pw''" "''Superuser''"] l
    by simp
qed

text \<open>
  C1, as the specification words it, fails: the controller's \<^verbatim>\<open>add_user\<close> called with the role
  \<^verbatim>\<open>"superuser"\<close> on the fresh store keeps \<^verbatim>\<open>"superuser"\<close> in memory and in the file.
\<close>

theorem C1_superuser_stored_verbatim:
  "users (fst (snd (add_user (JInt 3) (JStr ''X'') (JStr ''x@x.com'') (JStr ''pw'') (JStr ''superuser'')
       fresh_store fresh_disk))) =
     JList
        [JObj [(''id'', JInt 1), (''name'', JStr ''Admin''), (''email'', JStr ''admin@dlfs.com''),
               (''password'', JStr ''admin123''), (''role'', JStr ''admin'')],
         JObj [(''id'', JInt 2), (''name'', JStr ''User''), (''email'', JStr ''User@dlfs.com''),
               (''password'', JStr ''user123''), (''role'', JStr ''user'')],
         JObj [(''user_id'', JInt 3), (''name'', JStr ''X''), (''email'', JStr ''x@x.com''),
               (''password'', JStr ''pw''), (''role'', JStr ''superuser'')]] \<and>
   snd (snd (add_user (JInt 3) (JStr ''X'') (JStr ''x@x.com'') (JStr ''pw'') (JStr ''superuser'')
       fresh_store fresh_disk)) ''users.json'' =
     Some (Json (JList
        [JObj [(''id'', JInt 1), (''name'', JStr ''Admin''), (''email'', JStr ''admin@dlfs.com''),
               (''password'', JStr ''admin123''), (''role'', JStr ''admin'')],
         JObj [(''id'', JInt 2), (''name'', JStr ''User''), (''email'', JStr ''User@dlfs.com''),
               (''password'', JStr ''user123''), (''role'', JStr ''user'')],
         JObj [(''user_id'', JInt 3), (''name'', JStr ''X''), (''email'', JStr ''x@x.com''),
               (''password'', JStr ''pw''), (''role'', JStr ''superuser'')]]))"
  by (simp add: add_user_def User_def py_append_def save_data_def load_data_def Let_def
        fresh_disk_def fresh_store_def bootstrap_def bootstrap_file_def default_users_def)

text \<open>
  C2. \<^verbatim>\<open>load_data\<close> returns the empty list for a file whose text is not JSON and the
  decoded value for a file whose text is JSON; for a file that does not exist it raises
  \<^verbatim>\<open>FileNotFoundError\<close>. After the bootstrap loop has run the three files exist, so
  loading any of them does not raise.
\<close>

theorem C2_load_data_corrupt_or_missing:
  "load_data f (d(f \<mapsto> Corrupt)) = Inr (JList []) \<and>
   load_data f (d(f \<mapsto> Json v)) = Inr v \<and>
   load_data f (d(f := None)) = Inl FileNotFoundError \<and>
   load_data ''users.json'' (bootstrap d) \<noteq> Inl FileNotFoundError \<and>
   load_data ''items.json'' (bootstrap d) \<noteq> Inl FileNotFoundError \<and>
   load_data ''claims.json'' (bootstrap d) \<noteq> Inl FileNotFoundError"
  by (auto simp: load_data_def bootstrap_def bootstrap_file_def
           split: option.splits content.splits)

text \<open>
  C2, as the specification words it, fails: once \<^verbatim>\<open>items.json\<close> has been removed from a
  bootstrapped data directory, loading it raises instead of returning the empty list.
\<close>

theorem C2_missing_file_raises:
  "load_data ''items.json'' ((bootstrap Map.empty)(''items.json'' := None)) = Inl FileNotFoundError \<and>
   load_data ''items.json'' ((bootstrap Map.empty)(''items.json'' := None)) \<noteq> Inr (JList [])"
  by (simp add: load_data_def)

text \<open>
  C3. When the claims are a list of records that each carry a claim id, none of them the
  id about to be generated, and the items are a list of records that each carry an item
  id, \<^verbatim>\<open>claim_item\<close> appends a claim with status \<^verbatim>\<open>pending\<close> that names the given user
  and item (whether or not such an item exists) and returns its id; \<^verbatim>\<open>approve_claim\<close>
  on that id then returns \<^verbatim>\<open>True\<close>, sets the status of that claim to \<^verbatim>\<open>approved\<close> and
  the status of every item with the claimed id to \<^verbatim>\<open>claimed\<close>, and leaves every other
  item as it is, so that nothing changes among the items when none has the claimed id.
  An item made by \<^verbatim>\<open>report_item\<close>, whose status is \<^verbatim>\<open>reported\<close>, becomes the same
  record with status \<^verbatim>\<open>claimed\<close> when its id is the claimed one.
\<close>

theorem C3_claim_then_approve:
  assumes "claims c = JList cls"
    and "list_all (has_key ''claim_id'') cls"
    and "list_all (\<lambda>cl. \<not> claim_has_id (''CLM-'' @ str_nat rnd) cl) cls"
    and "items c = JList its"
    and "list_all (has_key ''item_id'') its"
  shows "claim_item rnd user_id item_id c d =
           (Returned (''CLM-'' @ str_nat rnd),
            c\<lparr>claims := JList (cls @ [JObj [(''claim_id'', JStr (''CLM-'' @ str_nat rnd)),
                 (''user_id'', user_id), (''item_id'', item_id), (''status'', JStr ''pending'')]])\<rparr>,
            save_all (c\<lparr>claims := JList (cls @ [JObj [(''claim_id'', JStr (''CLM-'' @ str_nat rnd)),
                 (''user_id'', user_id), (''item_id'', item_id), (''status'', JStr ''pending'')]])\<rparr>) d) \<and>
         approve_claim (''CLM-'' @ str_nat rnd)
            (c\<lparr>claims := JList (cls @ [JObj [(''claim_id'', JStr (''CLM-'' @ str_nat rnd)),
                 (''user_id'', user_id), (''item_id'', item_id), (''status'', JStr ''pending'')]])\<rparr>)
            (save_all (c\<lparr>claims := JList (cls @ [JObj [(''claim_id'', JStr (''CLM-'' @ str_nat rnd)),
                 (''user_id'', user_id), (''item_id'', item_id), (''status'', JStr ''pending'')]])\<rparr>) d) =
           (Returned True,
            c\<lparr>claims := JList (cls @ [JObj [(''claim_id'', JStr (''CLM-'' @ str_nat rnd)),
                 (''user_id'', user_id), (''item_id'', item_id), (''status'', JStr ''approved'')]]),
              items := JList (map (mark_claimed item_id) its)\<rparr>,
            save_all (c\<lparr>claims := JList (cls @ [JObj [(''claim_id'', JStr (''CLM-'' @ str_nat rnd)),
                 (''user_id'', user_id), (''item_id'', item_id), (''status'', JStr ''approved'')]]),
              items := JList (map (mark_claimed item_id) its)\<rparr>) d) \<and>
         list_all (\<lambda>it. if item_has_id item_id it
                         then field (mark_claimed item_id it) ''status'' = Some (JStr ''claimed'')
                         else mark_claimed item_id it = it) its \<and>
         mark_claimed (JStr (''ITEM-'' @ str_nat r)) (ReportedItem r name description location item_type) =
           JObj [(''item_id'', JStr (''ITEM-'' @ str_nat r)), (''name'', name),
                 (''description'', description), (''location'', location),
                 (''item_type'', item_type), (''status'', JStr ''claimed'')]"
proof -
  define pending where "pending = JObj [(''claim_id'', JStr (''CLM-'' @ str_nat rnd)),
                 (''user_id'', user_id), (''item_id'', item_id), (''status'', JStr ''pending'')]"
  define approved where "approved = JObj [(''claim_id'', JStr (''CLM-'' @ str_nat rnd)),
                 (''user_id'', user_id), (''item_id'', item_id), (''status'', JStr ''approved'')]"
  define c1 where "c1 = c\<lparr>claims := JList (cls @ [pending])\<rparr>"
  define c2 where "c2 = c\<lparr>claims := JList (cls @ [approved]), items := JList (map (mark_claimed item_id) its)\<rparr>"
  have made: "claim_item rnd user_id item_id c d = (Returned (''CLM-'' @ str_nat rnd), c1, save_all c1 d)"
    by (simp add: claim_item_def Claim_def py_append_def assms(1) Let_def c1_def pending_def)
  have c1_claims: "claims c1 = JList (cls @ pending # [])"
    by (simp add: c1_def)
  have c1_items: "items c1 = JList its"
    by (simp add: c1_def assms(4))
  have id: "claim_has_id (''CLM-'' @ str_nat rnd) pending"
    by (simp add: pending_def claim_has_id_def field_def)
  have item: "field pending ''item_id'' = Some item_id"
    by (simp add: pending_def field_def)
  have st: "with_status ''approved'' pending = approved"
    by (simp add: pending_def approved_def with_status_def)
  have c12: "c1\<lparr>claims := JList (cls @ [approved]), items := JList (map (mark_claimed item_id) its)\<rparr> = c2"
    by (simp add: c1_def c2_def)
  have appr: "approve_claim (''CLM-'' @ str_nat rnd) c1 (save_all c1 d) = (Returned True, c2, save_all c2 d)"
    using approve_claim_found[OF c1_claims assms(2) assms(3) id item c1_items assms(5), of "save_all c1 d"]
    by (simp add: st c12 save_all_twice)
  have each: "list_all (\<lambda>it. if item_has_id item_id it
                         then field (mark_claimed item_id it) ''status'' = Some (JStr ''claimed'')
                         else mark_claimed item_id it = it) its"
    by (simp add: list_all_iff mark_claimed_status mark_claimed_other)
  have reported: "mark_claimed (JStr (''ITEM-'' @ str_nat r)) (ReportedItem r name description location item_type) =
           JObj [(''item_id'', JStr (''ITEM-'' @ str_nat r)), (''name'', name),
                 (''description'', description), (''location'', location),
                 (''item_type'', item_type), (''status'', JStr ''claimed'')]"
    by (simp add: mark_claimed_def item_has_id_def field_def ReportedItem_def with_status_def)
  from made appr each reported show ?thesis
    unfolding c1_def c2_def pending_def approved_def by (intro conjI)
qed

text \<open>
  On the sample store a claim on the keys, numbered 5678, is made and approved: the keys
  are \<^verbatim>\<open>claimed\<close>, the wallet and the older claim are untouched.
\<close>

theorem C3_claim_then_approve_witness:
  "claims sample_store = JList [Claim 1234 (JInt 2) (JStr ''ITEM-1111'')] \<and>
   list_all (has_key ''claim_id'') [Claim 1234 (JInt 2) (JStr ''ITEM-1111'')] \<and>
   list_all (\<lambda>cl. \<not> claim_has_id (''CLM-'' @ str_nat 5678) cl) [Claim 1234 (JInt 2) (JStr ''ITEM-1111'')] \<and>
   items sample_store = JList
     [ReportedItem 1111 (JStr ''Wallet'') (JStr ''Black leather'') (JStr ''Library'') (JStr ''lost''),
      ReportedItem 2222 (JStr ''Keys'') (JStr ''Car keys'') (JStr ''Gym'') (JStr ''found'')] \<and>
   list_all (has_key ''item_id'')
     [ReportedItem 1111 (JStr ''Wallet'') (JStr ''Black leather'') (JStr ''Library'') (JStr ''lost''),
      ReportedItem 2222 (JStr ''Keys'') (JStr ''Car keys'') (JStr ''Gym'') (JStr ''found'')] \<and>
   fst (claim_item 5678 (JInt 2) (JStr ''ITEM-2222'') sample_store sample_disk) = Returned ''CLM-5678'' \<and>
   approve_claim ''CLM-5678''
     (fst (snd (claim_item 5678 (JInt 2) (JStr ''ITEM-2222'') sample_store sample_disk)))
     (snd (snd (claim_item 5678 (JInt 2) (JStr ''ITEM-2222'') sample_store sample_disk))) =
     (Returned True,
      sample_store\<lparr>
        claims := JList
          [JObj [(''claim_id'', JStr ''CLM-1234''), (''user_id'', JInt 2),
                 (''item_id'', JStr ''ITEM-1111''), (''status'', JStr ''pending'')],
           JObj [(''claim_id'', JStr ''CLM-5678''), (''user_id'', JInt 2),
                 (''item_id'', JStr ''ITEM-2222''), (''status'', JStr ''approved'')]],
        items := JList
          [JObj [(''item_id'', JStr ''ITEM-1111''), (''name'', JStr ''Wallet''),
                 (''description'', JStr ''Black leather''), (''location'', JStr ''Library''),
                 (''item_type'', JStr ''lost''), (''status'', JStr ''reported'')],
           JObj [(''item_id'', JStr ''ITEM-2222''), (''name'', JStr ''Keys''),
                 (''description'', JStr ''Car keys''), (''location'', JStr ''Gym''),
                 (''item_type'', JStr ''found''), (''status'', JStr ''claimed'')]]\<rparr>,
      save_all (sample_store\<lparr>
        claims := JList
          [JObj [(''claim_id'', JStr ''CLM-1234''), (''user_id'', JInt 2),
                 (''item_id'', JStr ''ITEM-1111''), (''status'', JStr ''pending'')],
           JObj [(''claim_id'', JStr ''CLM-5678''), (''user_id'', JInt 2),
                 (''item_id'', JStr ''ITEM-2222''), (''status'', JStr ''approved'')]],
        items := JList
          [JObj [(''item_id'', JStr ''ITEM-1111''), (''name'', JStr ''Wallet''),
                 (''description'', JStr ''Black leather''), (''location'', JStr ''Library''),
                 (''item_type'', JStr ''lost''), (''status'', JStr ''reported'')],
           JObj [(''item_id'', JStr ''ITEM-2222''), (''name'', JStr ''Keys''),
                 (''description'', JStr ''Car keys''), (''location'', JStr ''Gym''),
                 (''item_type'', JStr ''found''), (''status'', JStr ''claimed'')]]\<rparr>) sample_disk)"
proof -
  have a: "claims sample_store = JList [Claim 1234 (JInt 2) (JStr ''ITEM-1111'')]"
    by (simp add: sample_store_def)
  have b: "list_all (has_key ''claim_id'') [Claim 1234 (JInt 2) (JStr ''ITEM-1111'')]"
    by (simp add: has_key_def field_def Claim_def)
  have c: "list_all (\<lambda>cl. \<not> claim_has_id (''CLM-'' @ str_nat 5678) cl) [Claim 1234 (JInt 2) (JStr ''ITEM-1111'')]"
    by (simp add: claim_has_id_def field_def Claim_def str_1234 str_5678)
  note t = C3_claim_then_approve[OF a b c sample_items sample_items_have_ids,
      of "JInt 2" "JStr ''ITEM-2222''" sample_disk]
  have made: "claim_item 5678 (JInt 2) (JStr ''ITEM-2222'') sample_store sample_disk =
     (Returned ''CLM-5678'',
      sample_store\<lparr>claims := JList ([Claim 1234 (JInt 2) (JStr ''ITEM-1111'')] @
         [JObj [(''claim_id'', JStr ''CLM-5678''), (''user_id'', JInt 2),
                (''item_id'', JStr ''ITEM-2222''), (''status'', JStr ''pending'')]])\<rparr>,
      save_all (sample_store\<lparr>claims := JList ([Claim 1234 (JInt 2) (JStr ''ITEM-1111'')] @
         [JObj [(''claim_id'', JStr ''CLM-5678''), (''user_id'', JInt 2),
                (''item_id'', JStr ''ITEM-2222''), (''status'', JStr ''pending'')]])\<rparr>) sample_disk)"
    using t[THEN conjunct1] by (simp only: str_5678 append_Cons append_Nil)
  have m: "map (mark_claimed (JStr ''ITEM-2222''))
     [ReportedItem 1111 (JStr ''Wallet'') (JStr ''Black leather'') (JStr ''Library'') (JStr ''lost''),
      ReportedItem 2222 (JStr ''Keys'') (JStr ''Car keys'') (JStr ''Gym'') (JStr ''found'')] =
          [JObj [(''item_id'', JStr ''ITEM-1111''), (''name'', JStr ''Wallet''),
                 (''description'', JStr ''Black leather''), (''location'', JStr ''Library''),
                 (''item_type'', JStr ''lost''), (''status'', JStr ''reported'')],
           JObj [(''item_id'', JStr ''ITEM-2222''), (''name'', JStr ''Keys''),
                 (''description'', JStr ''Car keys''), (''location'', JStr ''Gym''),
                 (''item_type'', JStr ''found''), (''status'', JStr ''claimed'')]]"
    by (simp add: mark_claimed_def item_has_id_def field_def with_status_def ReportedItem_def
          str_1111 str_2222)
  have k: "Claim 1234 (JInt 2) (JStr ''ITEM-1111'') =
      JObj [(''claim_id'', JStr ''CLM-1234''), (''user_id'', JInt 2),
                 (''item_id'', JStr ''ITEM-1111''), (''status'', JStr ''pending'')]"
    by (simp add: Claim_def str_1234)
  have r1: "fst (claim_item 5678 (JInt 2) (JStr ''ITEM-2222'') sample_store sample_disk) = Returned ''CLM-5678''"
    by (simp only: made fst_conv)
  have r2: "approve_claim ''CLM-5678''
     (fst (snd (claim_item 5678 (JInt 2) (JStr ''ITEM-2222'') sample_store sample_disk)))
     (snd (snd (claim_item 5678 (JInt 2) (JStr ''ITEM-2222'') sample_store sample_disk))) =
     (Returned True,
      sample_store\<lparr>
        claims := JList
          [JObj [(''claim_id'', JStr ''CLM-1234''), (''user_id'', JInt 2),
                 (''item_id'', JStr ''ITEM-1111''), (''status'', JStr ''pending'')],
           JObj [(''claim_id'', JStr ''CLM-5678''), (''user_id'', JInt 2),
                 (''item_id'', JStr ''ITEM-2222''), (''status'', JStr ''approved'')]],
        items := JList
          [JObj [(''item_id'', JStr ''ITEM-1111''), (''name'', JStr ''Wallet''),
                 (''description'', JStr ''Black leather''), (''location'', JStr ''Library''),
                 (''item_type'', JStr ''lost''), (''status'', JStr ''reported'')],
           JObj [(''item_id'', JStr ''ITEM-2222''), (''name'', JStr ''Keys''),
                 (''description'', JStr ''Car keys''), (''location'', JStr ''Gym''),
                 (''item_type'', JStr ''found''), (''status'', JStr ''claimed'')]]\<rparr>,
      save_all (sample_store\<lparr>
        claims := JList
          [JObj [(''claim_id'', JStr ''CLM-1234''), (''user_id'', JInt 2),
                 (''item_id'', JStr ''ITEM-1111''), (''status'', JStr ''pending'')],
           JObj [(''claim_id'', JStr ''CLM-5678''), (''user_id'', JInt 2),
                 (''item_id'', JStr ''ITEM-2222''), (''status'', JStr ''approved'')]],
        items := JList
          [JObj [(''item_id'', JStr ''ITEM-1111''), (''name'', JStr ''Wallet''),
                 (''description'', JStr ''Black leather''), (''location'', JStr ''Library''),
                 (''item_type'', JStr ''lost''), (''status'', JStr ''reported'')],
           JObj [(''item_id'', JStr ''ITEM-2222''), (''name'', JStr ''Keys''),
                 (''description'', JStr ''Car keys''), (''location'', JStr ''Gym''),
                 (''item_type'', JStr ''found''), (''status'', JStr ''claimed'')]]\<rparr>) sample_disk)"
    using t[THEN conjunct2, THEN conjunct1]
    by (simp only: made fst_conv snd_conv str_5678 m k append_Cons append_Nil)
  from a b c sample_items sample_items_have_ids r1 r2 show ?thesis by (intro conjI)
qed

text \<open>
  C3, as the specification words it, fails when the random number repeats: the new claim on the
  keys gets the id \<^verbatim>\<open>CLM-1234\<close> of the older claim on the wallet, and approving
  \<^verbatim>\<open>CLM-1234\<close> approves the older claim and marks the wallet, while the new claim stays
  \<^verbatim>\<open>pending\<close> and the keys stay \<^verbatim>\<open>reported\<close>.
\<close>

theorem C3_colliding_claim_id:
  "claim_item 1234 (JInt 2) (JStr ''ITEM-2222'') sample_store sample_disk =
     (Returned ''CLM-1234'', collided_store, save_all collided_store sample_disk) \<and>
   fst (approve_claim ''CLM-1234'' collided_store (save_all collided_store sample_disk)) = Returned True \<and>
   claims (fst (snd (approve_claim ''CLM-1234'' collided_store (save_all collided_store sample_disk)))) =
     JList [JObj [(''claim_id'', JStr ''CLM-1234''), (''user_id'', JInt 2),
                  (''item_id'', JStr ''ITEM-1111''), (''status'', JStr ''approved'')],
            JObj [(''claim_id'', JStr ''CLM-1234''), (''user_id'', JInt 2),
                  (''item_id'', JStr ''ITEM-2222''), (''status'', JStr ''pending'')]] \<and>
   items (fst (snd (approve_claim ''CLM-1234'' collided_store (save_all collided_store sample_disk)))) =
     JList [JObj [(''item_id'', JStr ''ITEM-1111''), (''name'', JStr ''Wallet''),
                  (''description'', JStr ''Black leather''), (''location'', JStr ''Library''),
                  (''item_type'', JStr ''lost''), (''status'', JStr ''claimed'')],
            JObj [(''item_id'', JStr ''ITEM-2222''), (''name'', JStr ''Keys''),
                  (''description'', JStr ''Car keys''), (''location'', JStr ''Gym''),
                  (''item_type'', JStr ''found''), (''status'', JStr ''reported'')]]"
proof -
  have made: "claim_item 1234 (JInt 2) (JStr ''ITEM-2222'') sample_store sample_disk =
     (Returned ''CLM-1234'', collided_store, save_all collided_store sample_disk)"
    by (simp add: claim_item_def py_append_def Let_def collided_store_def sample_store_def str_1234)
  note found = approve_claim_found[OF collided_claims _ _ sample_claim_id sample_claim_item collided_items
      sample_items_have_ids, of "save_all collided_store sample_disk", simplified]
  have ok: "fst (approve_claim ''CLM-1234'' collided_store (save_all collided_store sample_disk)) = Returned True"
    by (simp add: found)
  have cl: "claims (fst (snd (approve_claim ''CLM-1234'' collided_store (save_all collided_store sample_disk)))) =
     JList [JObj [(''claim_id'', JStr ''CLM-1234''), (''user_id'', JInt 2),
                  (''item_id'', JStr ''ITEM-1111''), (''status'', JStr ''approved'')],
            JObj [(''claim_id'', JStr ''CLM-1234''), (''user_id'', JInt 2),
                  (''item_id'', JStr ''ITEM-2222''), (''status'', JStr ''pending'')]]"
    by (simp add: found with_status_def Claim_def str_1234)
  have it: "items (fst (snd (approve_claim ''CLM-1234'' collided_store (save_all collided_store sample_disk)))) =
     JList [JObj [(''item_id'', JStr ''ITEM-1111''), (''name'', JStr ''Wallet''),
                  (''description'', JStr ''Black leather''), (''location'', JStr ''Library''),
                  (''item_type'', JStr ''lost''), (''status'', JStr ''claimed'')],
            JObj [(''item_id'', JStr ''ITEM-2222''), (''name'', JStr ''Keys''),
                  (''description'', JStr ''Car keys''), (''location'', JStr ''Gym''),
                  (''item_type'', JStr ''found''), (''status'', JStr ''reported'')]]"
    by (simp add: found mark_claimed_def item_has_id_def field_def with_status_def ReportedItem_def
          str_1111 str_2222)
  from made ok cl it show ?thesis by (intro conjI)
qed

text \<open>
  C4. When the claims are a list of records that each carry a claim id, and none of them
  carries the given id, \<^verbatim>\<open>approve_claim\<close> returns \<^verbatim>\<open>False\<close> and leaves the three
  collections in memory and the data directory as they were.
\<close>

theorem C4_approve_unknown_claim:
  assumes "claims c = JList cls"
    and "list_all (has_key ''claim_id'') cls"
    and "list_all (\<lambda>cl. \<not> claim_has_id claim_id cl) cls"
  shows "approve_claim claim_id c d = (Returned False, c, d)"
proof -
  have "approve_claim claim_id c d = approve_scan claim_id [] (cls @ []) c d"
    by (simp add: approve_claim_def py_iter_def assms(1))
  also have "\<dots> = approve_scan claim_id ([] @ cls) [] c d"
    by (rule approve_scan_skip[OF assms(2) assms(3)])
  finally show ?thesis by simp
qed

text \<open>The sample store has one claim, \<^verbatim>\<open>CLM-1234\<close>; approving \<^verbatim>\<open>CLM-0000\<close> changes nothing.\<close>

theorem C4_approve_unknown_claim_witness:
  "claims sample_store = JList [Claim 1234 (JInt 2) (JStr ''ITEM-1111'')] \<and>
   list_all (has_key ''claim_id'') [Claim 1234 (JInt 2) (JStr ''ITEM-1111'')] \<and>
   list_all (\<lambda>cl. \<not> claim_has_id ''CLM-0000'' cl) [Claim 1234 (JInt 2) (JStr ''ITEM-1111'')] \<and>
   approve_claim ''CLM-0000'' sample_store sample_disk = (Returned False, sample_store, sample_disk)"
proof -
  have a: "claims sample_store = JList [Claim 1234 (JInt 2) (JStr ''ITEM-1111'')]"
    by (simp add: sample_store_def)
  have b: "list_all (has_key ''claim_id'') [Claim 1234 (JInt 2) (JStr ''ITEM-1111'')]"
    by (simp add: has_key_def field_def Claim_def)
  have c: "list_all (\<lambda>cl. \<not> claim_has_id ''CLM-0000'' cl) [Claim 1234 (JInt 2) (JStr ''ITEM-1111'')]"
    by (simp add: claim_has_id_def field_def Claim_def str_1234)
  from a b c C4_approve_unknown_claim[OF a b c, of sample_disk] show ?thesis by blast
qed

text \<open>
  C5. On an empty data directory the bootstrap loop writes an empty items file, an empty
  claims file and a users file with exactly the two seeded accounts (the admin with id 1,
  the user with id 2, and their fixed credentials); run again, on any directory, it
  changes nothing, so the users file still holds those two accounts.
\<close>

theorem C5_bootstrap_idempotent:
  "bootstrap Map.empty =
     [''users.json'' \<mapsto> Json (JList
        [JObj [(''id'', JInt 1), (''name'', JStr ''Admin''), (''email'', JStr ''admin@dlfs.com''),
               (''password'', JStr ''admin123''), (''role'', JStr ''admin'')],
         JObj [(''id'', JInt 2), (''name'', JStr ''User''), (''email'', JStr ''User@dlfs.com''),
               (''password'', JStr ''user123''), (''role'', JStr ''user'')]]),
      ''items.json'' \<mapsto> Json (JList []),
      ''claims.json'' \<mapsto> Json (JList [])] \<and>
   bootstrap (bootstrap d) = bootstrap d \<and>
   load_data ''users.json'' (bootstrap (bootstrap Map.empty)) =
     Inr (JList
        [JObj [(''id'', JInt 1), (''name'', JStr ''Admin''), (''email'', JStr ''admin@dlfs.com''),
               (''password'', JStr ''admin123''), (''role'', JStr ''admin'')],
         JObj [(''id'', JInt 2), (''name'', JStr ''User''), (''email'', JStr ''User@dlfs.com''),
               (''password'', JStr ''user123''), (''role'', JStr ''user'')]])"
proof -
  have first: "bootstrap Map.empty =
     [''users.json'' \<mapsto> Json default_users, ''items.json'' \<mapsto> Json (JList []),
      ''claims.json'' \<mapsto> Json (JList [])]"
    by (simp add: bootstrap_def bootstrap_file_def)
  have again: "load_data ''users.json'' (bootstrap (bootstrap Map.empty)) = Inr default_users"
    by (simp only: bootstrap_twice) (simp add: first load_data_def)
  show ?thesis
    using first again bootstrap_twice[of d] by (simp add: default_users_def)
qed

text \<open>
  C6. When the users are a list of records, \<^verbatim>\<open>login\<close> returns the first of them, in list
  order, whose email and password are exactly the given strings, and \<^verbatim>\<open>None\<close> when
  there is none; it does not raise. On the freshly bootstrapped store the admin's
  credentials give the seeded admin record and a wrong password gives \<^verbatim>\<open>None\<close>.
\<close>

theorem C6_login_first_match:
  "(list_all is_record us \<longrightarrow>
      login email password (c\<lparr>users := JList us\<rparr>) = Inr (find (credentials_match email password) us)) \<and>
   init_controller fresh_disk = Inr fresh_store \<and>
   login ''admin@dlfs.com'' ''admin123'' fresh_store =
     Inr (Some (JObj [(''id'', JInt 1), (''name'', JStr ''Admin''), (''email'', JStr ''admin@dlfs.com''),
                      (''password'', JStr ''admin123''), (''role'', JStr ''admin'')])) \<and>
   login ''admin@dlfs.com'' ''wrong'' fresh_store = Inr None"
proof -
  have general: "list_all is_record us \<longrightarrow>
      login email password (c\<lparr>users := JList us\<rparr>) = Inr (find (credentials_match email password) us)"
    by (simp add: login_def py_iter_def login_scan_find)
  have start: "init_controller fresh_disk = Inr fresh_store"
    by (simp add: init_controller_def fresh_disk_def fresh_store_def load_data_def bootstrap_def bootstrap_file_def)
  have good: "login ''admin@dlfs.com'' ''admin123'' fresh_store =
     Inr (Some (JObj [(''id'', JInt 1), (''name'', JStr ''Admin''), (''email'', JStr ''admin@dlfs.com''),
                      (''password'', JStr ''admin123''), (''role'', JStr ''admin'')]))"
    by (simp add: login_def py_iter_def fresh_store_def default_users_def py_contains_def py_getitem_def)
  have bad: "login ''admin@dlfs.com'' ''wrong'' fresh_store = Inr None"
    by (simp add: login_def py_iter_def fresh_store_def default_users_def py_contains_def py_getitem_def)
  from general start good bad show ?thesis by blast
qed

text \<open>
  Four accounts, two of them with the same credentials: the earlier one is returned, and
  the accounts before it (a wrong password, no credentials at all) are passed over.
\<close>

theorem C6_login_first_match_witness:
  "list_all is_record
     [JObj [(''email'', JStr ''a@b.c''), (''password'', JStr ''x'')],
      JObj [(''name'', JStr ''no credentials'')],
      JObj [(''email'', JStr ''a@b.c''), (''password'', JStr ''pw''), (''name'', JStr ''first'')],
      JObj [(''email'', JStr ''a@b.c''), (''password'', JStr ''pw''), (''name'', JStr ''second'')]] \<and>
   login ''a@b.c'' ''pw'' (fresh_store\<lparr>users := JList
     [JObj [(''email'', JStr ''a@b.c''), (''password'', JStr ''x'')],
      JObj [(''name'', JStr ''no credentials'')],
      JObj [(''email'', JStr ''a@b.c''), (''password'', JStr ''pw''), (''name'', JStr ''first'')],
      JObj [(''email'', JStr ''a@b.c''), (''password'', JStr ''pw''), (''name'', JStr ''second'')]]\<rparr>)
   = Inr (Some (JObj [(''email'', JStr ''a@b.c''), (''password'', JStr ''pw''), (''name'', JStr ''first'')]))"
  using C6_login_first_match[of
     "[JObj [(''email'', JStr ''a@b.c''), (''password'', JStr ''x'')],
      JObj [(''name'', JStr ''no credentials'')],
      JObj [(''email'', JStr ''a@b.c''), (''password'', JStr ''pw''), (''name'', JStr ''first'')],
      JObj [(''email'', JStr ''a@b.c''), (''password'', JStr ''pw''), (''name'', JStr ''second'')]]"
     "''a@b.c''" "''pw''" fresh_store]
  by (simp add: credentials_match_JObj)

text \<open>
  C7. When the items in memory are a list and the random number lies between 1000 and
  9999, \<^verbatim>\<open>report_item\<close> appends one record with the keys \<^verbatim>\<open>item_id\<close>, \<^verbatim>\<open>name\<close>,
  \<^verbatim>\<open>description\<close>, \<^verbatim>\<open>location\<close>, \<^verbatim>\<open>item_type\<close> and \<^verbatim>\<open>status\<close> (the reporter's id is
  not among them), with the given values and the status \<^verbatim>\<open>reported\<close>; the items file
  then holds the same list; the id returned is \<^verbatim>\<open>ITEM-\<close> followed by four decimal
  digits, the first of which is not zero.
\<close>

theorem C7_report_item:
  assumes "randint_1000_9999 rnd" and "items c = JList its"
  shows "report_item rnd name description location item_type reporter_id c d =
           (Returned (''ITEM-'' @ str_nat rnd),
            c\<lparr>items := JList (its @ [JObj [(''item_id'', JStr (''ITEM-'' @ str_nat rnd)), (''name'', name),
                 (''description'', description), (''location'', location),
                 (''item_type'', item_type), (''status'', JStr ''reported'')]])\<rparr>,
            save_all (c\<lparr>items := JList (its @ [JObj [(''item_id'', JStr (''ITEM-'' @ str_nat rnd)),
                 (''name'', name), (''description'', description), (''location'', location),
                 (''item_type'', item_type), (''status'', JStr ''reported'')]])\<rparr>) d) \<and>
         load_data ''items.json'' (snd (snd (report_item rnd name description location item_type reporter_id c d))) =
           Inr (JList (its @ [JObj [(''item_id'', JStr (''ITEM-'' @ str_nat rnd)), (''name'', name),
                 (''description'', description), (''location'', location),
                 (''item_type'', item_type), (''status'', JStr ''reported'')]])) \<and>
         length (str_nat rnd) = 4 \<and> list_all is_digit (str_nat rnd) \<and> hd (str_nat rnd) \<noteq> CHR ''0''"
proof -
  have r: "report_item rnd name description location item_type reporter_id c d =
           (Returned (''ITEM-'' @ str_nat rnd),
            c\<lparr>items := JList (its @ [JObj [(''item_id'', JStr (''ITEM-'' @ str_nat rnd)), (''name'', name),
                 (''description'', description), (''location'', location),
                 (''item_type'', item_type), (''status'', JStr ''reported'')]])\<rparr>,
            save_all (c\<lparr>items := JList (its @ [JObj [(''item_id'', JStr (''ITEM-'' @ str_nat rnd)),
                 (''name'', name), (''description'', description), (''location'', location),
                 (''item_type'', item_type), (''status'', JStr ''reported'')]])\<rparr>) d)"
    by (simp add: report_item_def ReportedItem_def py_append_def assms(2) Let_def)
  have l: "load_data ''items.json'' (save_all c' d) = Inr (items c')" for c'
    by (simp add: load_data_def save_all_def save_data_def)
  from assms(1) have "1000 \<le> rnd" "rnd \<le> 9999" by (simp_all add: randint_1000_9999_def)
  then have digits: "length (str_nat rnd) = 4 \<and> list_all is_digit (str_nat rnd) \<and> hd (str_nat rnd) \<noteq> CHR ''0''"
    by (rule str_nat_digits)
  show ?thesis
    using digits by (simp add: r l)
qed

text \<open>A second report, with the number 2222, on a store that already holds the wallet.\<close>

theorem C7_report_item_witness:
  "randint_1000_9999 2222 \<and>
   items (fresh_store\<lparr>items := JList [ReportedItem 1111 (JStr ''Wallet'') (JStr ''Black leather'') (JStr ''Library'') (JStr ''lost'')]\<rparr>)
     = JList [ReportedItem 1111 (JStr ''Wallet'') (JStr ''Black leather'') (JStr ''Library'') (JStr ''lost'')] \<and>
   fst (report_item 2222 (JStr ''Keys'') (JStr ''Car keys'') (JStr ''Gym'') (JStr ''found'') (JInt 2)
     (fresh_store\<lparr>items := JList [ReportedItem 1111 (JStr ''Wallet'') (JStr ''Black leather'') (JStr ''Library'') (JStr ''lost'')]\<rparr>)
     fresh_disk) = Returned ''ITEM-2222'' \<and>
   load_data ''items.json'' (snd (snd (report_item 2222 (JStr ''Keys'') (JStr ''Car keys'') (JStr ''Gym'') (JStr ''found'') (JInt 2)
     (fresh_store\<lparr>items := JList [ReportedItem 1111 (JStr ''Wallet'') (JStr ''Black leather'') (JStr ''Library'') (JStr ''lost'')]\<rparr>)
     fresh_disk))) =
     Inr (JList [JObj [(''item_id'', JStr ''ITEM-1111''), (''name'', JStr ''Wallet''),
                       (''description'', JStr ''Black leather''), (''location'', JStr ''Library''),
                       (''item_type'', JStr ''lost''), (''status'', JStr ''reported'')],
                 JObj [(''item_id'', JStr ''ITEM-2222''), (''name'', JStr ''Keys''),
                       (''description'', JStr ''Car keys''), (''location'', JStr ''Gym''),
                       (''item_type'', JStr ''found''), (''status'', JStr ''reported'')]])"
proof -
  have a: "randint_1000_9999 2222" by (simp add: randint_1000_9999_def)
  have b: "items (fresh_store\<lparr>items := JList [ReportedItem 1111 (JStr ''Wallet'') (JStr ''Black leather'') (JStr ''Library'') (JStr ''lost'')]\<rparr>)
     = JList [ReportedItem 1111 (JStr ''Wallet'') (JStr ''Black leather'') (JStr ''Library'') (JStr ''lost'')]" by simp
  note t = C7_report_item[OF a b, of "JStr ''Keys''" "JStr ''Car keys''" "JStr ''Gym''" "JStr ''found''" "JInt 2" fresh_disk]
  have r: "fst (report_item 2222 (JStr ''Keys'') (JStr ''Car keys'') (JStr ''Gym'') (JStr ''found'') (JInt 2)
     (fresh_store\<lparr>items := JList [ReportedItem 1111 (JStr ''Wallet'') (JStr ''Black leather'') (JStr ''Library'') (JStr ''lost'')]\<rparr>)
     fresh_disk) = Returned ''ITEM-2222''"
    by (simp add: t[THEN conjunct1] str_2222)
  have l: "load_data ''items.json'' (snd (snd (report_item 2222 (JStr ''Keys'') (JStr ''Car keys'') (JStr ''Gym'') (JStr ''found'') (JInt 2)
     (fresh_store\<lparr>items := JList [ReportedItem 1111 (JStr ''Wallet'') (JStr ''Black leather'') (JStr ''Library'') (JStr ''lost'')]\<rparr>)
     fresh_disk))) =
     Inr (JList [JObj [(''item_id'', JStr ''ITEM-1111''), (''name'', JStr ''Wallet''),
                       (''description'', JStr ''Black leather''), (''location'', JStr ''Library''),
                       (''item_type'', JStr ''lost''), (''status'', JStr ''reported'')],
                 JObj [(''item_id'', JStr ''ITEM-2222''), (''name'', JStr ''Keys''),
                       (''description'', JStr ''Car keys''), (''location'', JStr ''Gym''),
                       (''item_type'', JStr ''found''), (''status'', JStr ''reported'')]])"
    using t[THEN conjunct2, THEN conjunct1] by (simp add: str_2222 str_1111 ReportedItem_def)
  from a b r l show ?thesis by blast
qed



text \<open>
  C9. When memory and the three files hold the same collections, they hold the same
  collections again after \<^verbatim>\<open>add_user\<close>, \<^verbatim>\<open>report_item\<close> and \<^verbatim>\<open>claim_item\<close> have
  returned, and after \<^verbatim>\<open>approve_claim\<close> has returned \<^verbatim>\<open>True\<close>.
\<close>

theorem C9_write_through:
  assumes "synced c d"
  shows "(\<forall>c' d'. add_user user_id name email password role c d = (Returned (), c', d') \<longrightarrow> synced c' d') \<and>
         (\<forall>new_id c' d'. report_item rnd item_name description location item_type reporter_id c d
              = (Returned new_id, c', d') \<longrightarrow> synced c' d') \<and>
         (\<forall>new_id c' d'. claim_item rnd' claimant item_id c d = (Returned new_id, c', d') \<longrightarrow> synced c' d') \<and>
         (\<forall>c' d'. approve_claim claim_id c d = (Returned True, c', d') \<longrightarrow> synced c' d')"
proof -
  have a: "add_user user_id name email password role c d = (Returned (), c', d') \<Longrightarrow> synced c' d'" for c' d'
    using assms
    by (auto simp: add_user_def Let_def load_data_def save_data_def synced_def
             split: sum.splits)
  have b: "report_item rnd item_name description location item_type reporter_id c d
              = (Returned new_id, c', d') \<Longrightarrow> synced c' d'" for new_id c' d'
    by (auto simp: report_item_def Let_def synced_save_all split: sum.splits)
  have cl: "claim_item rnd' claimant item_id c d = (Returned new_id, c', d') \<Longrightarrow> synced c' d'" for new_id c' d'
    by (auto simp: claim_item_def Let_def synced_save_all split: sum.splits)
  have ap: "approve_claim claim_id c d = (Returned True, c', d') \<Longrightarrow> synced c' d'" for c' d'
    by (auto simp: approve_claim_def dest: approve_scan_synced split: sum.splits)
  from a b cl ap show ?thesis by blast
qed

text \<open>
  On the sample store, written to its files: each of the four operations returns (the
  approval of \<^verbatim>\<open>CLM-1234\<close> with \<^verbatim>\<open>True\<close>) and leaves memory and files in step.
\<close>

theorem C9_write_through_witness:
  "synced sample_store sample_disk \<and>
   fst (add_user (JInt 3) (JStr ''X'') (JStr ''x@x.com'') (JStr ''pw'') (JStr ''user'') sample_store sample_disk)
     = Returned () \<and>
   synced
     (fst (snd (add_user (JInt 3) (JStr ''X'') (JStr ''x@x.com'') (JStr ''pw'') (JStr ''user'') sample_store sample_disk)))
     (snd (snd (add_user (JInt 3) (JStr ''X'') (JStr ''x@x.com'') (JStr ''pw'') (JStr ''user'') sample_store sample_disk))) \<and>
   fst (report_item 3333 (JStr ''Umbrella'') (JStr ''Red'') (JStr ''Hall'') (JStr ''found'') (JInt 2) sample_store sample_disk)
     = Returned ''ITEM-3333'' \<and>
   synced
     (fst (snd (report_item 3333 (JStr ''Umbrella'') (JStr ''Red'') (JStr ''Hall'') (JStr ''found'') (JInt 2) sample_store sample_disk)))
     (snd (snd (report_item 3333 (JStr ''Umbrella'') (JStr ''Red'') (JStr ''Hall'') (JStr ''found'') (JInt 2) sample_store sample_disk))) \<and>
   fst (claim_item 5678 (JInt 2) (JStr ''ITEM-2222'') sample_store sample_disk) = Returned ''CLM-5678'' \<and>
   synced
     (fst (snd (claim_item 5678 (JInt 2) (JStr ''ITEM-2222'') sample_store sample_disk)))
     (snd (snd (claim_item 5678 (JInt 2) (JStr ''ITEM-2222'') sample_store sample_disk))) \<and>
   fst (approve_claim ''CLM-1234'' sample_store sample_disk) = Returned True \<and>
   synced
     (fst (snd (approve_claim ''CLM-1234'' sample_store sample_disk)))
     (snd (snd (approve_claim ''CLM-1234'' sample_store sample_disk)))"
proof -
  have s: "synced sample_store sample_disk"
    unfolding sample_disk_def by (rule synced_save_all)
  note t = C9_write_through[OF s, of "JInt 3" "JStr ''X''" "JStr ''x@x.com''" "JStr ''pw''" "JStr ''user''"
      3333 "JStr ''Umbrella''" "JStr ''Red''" "JStr ''Hall''" "JStr ''found''" "JInt 2"
      5678 "JInt 2" "JStr ''ITEM-2222''" "''CLM-1234''"]
  have a: "fst (add_user (JInt 3) (JStr ''X'') (JStr ''x@x.com'') (JStr ''pw'') (JStr ''user'') sample_store sample_disk)
     = Returned ()"
    using sample_users_file unfolding default_users_def by (rule add_user_returns)
  have b: "fst (report_item 3333 (JStr ''Umbrella'') (JStr ''Red'') (JStr ''Hall'') (JStr ''found'') (JInt 2) sample_store sample_disk)
     = Returned ''ITEM-3333''"
    using report_item_returns[OF sample_items] by (simp add: str_3333)
  have c: "fst (claim_item 5678 (JInt 2) (JStr ''ITEM-2222'') sample_store sample_disk) = Returned ''CLM-5678''"
    using claim_item_returns[OF sample_claims] by (simp add: str_5678)
  have d: "fst (approve_claim ''CLM-1234'' sample_store sample_disk) = Returned True"
    by (simp add: approve_claim_found[OF sample_claims _ _ sample_claim_id sample_claim_item sample_items
          sample_items_have_ids])
  have a': "synced
     (fst (snd (add_user (JInt 3) (JStr ''X'') (JStr ''x@x.com'') (JStr ''pw'') (JStr ''user'') sample_store sample_disk)))
     (snd (snd (add_user (JInt 3) (JStr ''X'') (JStr ''x@x.com'') (JStr ''pw'') (JStr ''user'') sample_store sample_disk)))"
    by (rule t[THEN conjunct1, rule_format, OF triple_collapse[OF a]])
  have b': "synced
     (fst (snd (report_item 3333 (JStr ''Umbrella'') (JStr ''Red'') (JStr ''Hall'') (JStr ''found'') (JInt 2) sample_store sample_disk)))
     (snd (snd (report_item 3333 (JStr ''Umbrella'') (JStr ''Red'') (JStr ''Hall'') (JStr ''found'') (JInt 2) sample_store sample_disk)))"
    by (rule t[THEN conjunct2, THEN conjunct1, rule_format, OF triple_collapse[OF b]])
  have c': "synced
     (fst (snd (claim_item 5678 (JInt 2) (JStr ''ITEM-2222'') sample_store sample_disk)))
     (snd (snd (claim_item 5678 (JInt 2) (JStr ''ITEM-2222'') sample_store sample_disk)))"
    by (rule t[THEN conjunct2, THEN conjunct2, THEN conjunct1, rule_format, OF triple_collapse[OF c]])
  have d': "synced
     (fst (snd (approve_claim ''CLM-1234'' sample_store sample_disk)))
     (snd (snd (approve_claim ''CLM-1234'' sample_store sample_disk)))"
    by (rule t[THEN conjunct2, THEN conjunct2, THEN conjunct2, rule_format, OF triple_collapse[OF d]])
  from s a a' b b' c c' d d' show ?thesis by (intro conjI)
qed

text \<open>
  C10. When the claims are a list in which \<open>claim\<close> is the first record with the given
  claim id, and the items are a list of records that each carry an item id,
  \<^verbatim>\<open>approve_claim\<close> returns \<^verbatim>\<open>True\<close>, sets the status of that claim to \<^verbatim>\<open>approved\<close> and the
  status of every item whose id equals the claim's \<^verbatim>\<open>item_id\<close> to \<^verbatim>\<open>claimed\<close>, whatever
  the status was; the other items stay as they are. Approving the same claim again
  returns \<^verbatim>\<open>True\<close> again and does the same update.
\<close>

theorem C10_approve_ignores_item_status:
  assumes "claims c = JList (pre @ claim # rest)"
    and "list_all (has_key ''claim_id'') pre"
    and "list_all (\<lambda>cl. \<not> claim_has_id claim_id cl) pre"
    and "claim_has_id claim_id claim"
    and "field claim ''item_id'' = Some wanted"
    and "items c = JList its"
    and "list_all (has_key ''item_id'') its"
  shows "approve_claim claim_id c d =
           (Returned True,
            c\<lparr>claims := JList (pre @ with_status ''approved'' claim # rest),
              items := JList (map (mark_claimed wanted) its)\<rparr>,
            save_all (c\<lparr>claims := JList (pre @ with_status ''approved'' claim # rest),
              items := JList (map (mark_claimed wanted) its)\<rparr>) d) \<and>
         list_all (\<lambda>it. if item_has_id wanted it
                         then field (mark_claimed wanted it) ''status'' = Some (JStr ''claimed'')
                         else mark_claimed wanted it = it) its \<and>
         approve_claim claim_id
            (c\<lparr>claims := JList (pre @ with_status ''approved'' claim # rest),
              items := JList (map (mark_claimed wanted) its)\<rparr>)
            (save_all (c\<lparr>claims := JList (pre @ with_status ''approved'' claim # rest),
              items := JList (map (mark_claimed wanted) its)\<rparr>) d) =
           (Returned True,
            c\<lparr>claims := JList (pre @ with_status ''approved'' claim # rest),
              items := JList (map (mark_claimed wanted) its)\<rparr>,
            save_all (c\<lparr>claims := JList (pre @ with_status ''approved'' claim # rest),
              items := JList (map (mark_claimed wanted) its)\<rparr>) d)"
proof -
  define c2 where "c2 = c\<lparr>claims := JList (pre @ with_status ''approved'' claim # rest),
              items := JList (map (mark_claimed wanted) its)\<rparr>"
  have first: "approve_claim claim_id c d = (Returned True, c2, save_all c2 d)"
    unfolding c2_def by (rule approve_claim_found[OF assms])
  have each: "list_all (\<lambda>it. if item_has_id wanted it
                         then field (mark_claimed wanted it) ''status'' = Some (JStr ''claimed'')
                         else mark_claimed wanted it = it) its"
    by (simp add: list_all_iff mark_claimed_status mark_claimed_other)
  have c2_claims: "claims c2 = JList (pre @ with_status ''approved'' claim # rest)"
    by (simp add: c2_def)
  have c2_items: "items c2 = JList (map (mark_claimed wanted) its)"
    by (simp add: c2_def)
  have id': "claim_has_id claim_id (with_status ''approved'' claim)"
    using assms(4) by (simp add: claim_has_id_with_status)
  have item': "field (with_status ''approved'' claim) ''item_id'' = Some wanted"
    using assms(5) by (simp add: field_with_status)
  have keys': "list_all (has_key ''item_id'') (map (mark_claimed wanted) its)"
    using assms(7) by (simp add: list_all_iff has_key_mark_claimed)
  have c2_again: "c2\<lparr>claims := JList (pre @ with_status ''approved'' (with_status ''approved'' claim) # rest),
              items := JList (map (mark_claimed wanted) (map (mark_claimed wanted) its))\<rparr> = c2"
    by (simp add: c2_def with_status_twice mark_claimed_twice)
  have again: "approve_claim claim_id c2 (save_all c2 d) = (Returned True, c2, save_all c2 d)"
    using approve_claim_found[OF c2_claims assms(2) assms(3) id' item' c2_items keys', of "save_all c2 d"]
    unfolding c2_again by (simp only: save_all_twice)
  from first each again show ?thesis
    unfolding c2_def by (intro conjI)
qed

text \<open>
  The claim \<^verbatim>\<open>CLM-1234\<close> is already approved and the wallet it names has the status
  \<^verbatim>\<open>returned\<close>: approving the claim once more returns \<^verbatim>\<open>True\<close> and puts the wallet back
  to \<^verbatim>\<open>claimed\<close>.
\<close>

theorem C10_approve_ignores_item_status_witness:
  "claims returned_store =
     JList ([] @ JObj [(''claim_id'', JStr ''CLM-1234''), (''user_id'', JInt 2),
                       (''item_id'', JStr ''ITEM-1111''), (''status'', JStr ''approved'')] # []) \<and>
   claim_has_id ''CLM-1234''
     (JObj [(''claim_id'', JStr ''CLM-1234''), (''user_id'', JInt 2),
            (''item_id'', JStr ''ITEM-1111''), (''status'', JStr ''approved'')]) \<and>
   items returned_store =
     JList [JObj [(''item_id'', JStr ''ITEM-1111''), (''name'', JStr ''Wallet''),
                  (''description'', JStr ''Black leather''), (''location'', JStr ''Library''),
                  (''item_type'', JStr ''lost''), (''status'', JStr ''returned'')]] \<and>
   approve_claim ''CLM-1234'' returned_store (save_all returned_store fresh_disk) =
     (Returned True,
      returned_store\<lparr>items := JList
         [JObj [(''item_id'', JStr ''ITEM-1111''), (''name'', JStr ''Wallet''),
                (''description'', JStr ''Black leather''), (''location'', JStr ''Library''),
                (''item_type'', JStr ''lost''), (''status'', JStr ''claimed'')]]\<rparr>,
      save_all (returned_store\<lparr>items := JList
         [JObj [(''item_id'', JStr ''ITEM-1111''), (''name'', JStr ''Wallet''),
                (''description'', JStr ''Black leather''), (''location'', JStr ''Library''),
                (''item_type'', JStr ''lost''), (''status'', JStr ''claimed'')]]\<rparr>) fresh_disk)"
proof -
  have a: "claims returned_store =
     JList ([] @ JObj [(''claim_id'', JStr ''CLM-1234''), (''user_id'', JInt 2),
                       (''item_id'', JStr ''ITEM-1111''), (''status'', JStr ''approved'')] # [])"
    by (simp add: returned_store_def)
  have b: "list_all (has_key ''claim_id'') []" by simp
  have c: "list_all (\<lambda>cl. \<not> claim_has_id ''CLM-1234'' cl) []" by simp
  have d: "claim_has_id ''CLM-1234''
     (JObj [(''claim_id'', JStr ''CLM-1234''), (''user_id'', JInt 2),
            (''item_id'', JStr ''ITEM-1111''), (''status'', JStr ''approved'')])"
    by (simp add: claim_has_id_def field_def)
  have e: "field (JObj [(''claim_id'', JStr ''CLM-1234''), (''user_id'', JInt 2),
            (''item_id'', JStr ''ITEM-1111''), (''status'', JStr ''approved'')]) ''item_id'' = Some (JStr ''ITEM-1111'')"
    by (simp add: field_def)
  have f: "items returned_store =
     JList [JObj [(''item_id'', JStr ''ITEM-1111''), (''name'', JStr ''Wallet''),
                  (''description'', JStr ''Black leather''), (''location'', JStr ''Library''),
                  (''item_type'', JStr ''lost''), (''status'', JStr ''returned'')]]"
    by (simp add: returned_store_def)
  have g: "list_all (has_key ''item_id'')
     [JObj [(''item_id'', JStr ''ITEM-1111''), (''name'', JStr ''Wallet''),
                  (''description'', JStr ''Black leather''), (''location'', JStr ''Library''),
                  (''item_type'', JStr ''lost''), (''status'', JStr ''returned'')]]"
    by (simp add: has_key_def field_def)
  have m: "mark_claimed (JStr ''ITEM-1111'')
      (JObj [(''item_id'', JStr ''ITEM-1111''), (''name'', JStr ''Wallet''),
                  (''description'', JStr ''Black leather''), (''location'', JStr ''Library''),
                  (''item_type'', JStr ''lost''), (''status'', JStr ''returned'')]) =
      JObj [(''item_id'', JStr ''ITEM-1111''), (''name'', JStr ''Wallet''),
                  (''description'', JStr ''Black leather''), (''location'', JStr ''Library''),
                  (''item_type'', JStr ''lost''), (''status'', JStr ''claimed'')]"
    by (simp add: mark_claimed_def item_has_id_def field_def with_status_def)
  have w: "with_status ''approved'' (JObj [(''claim_id'', JStr ''CLM-1234''), (''user_id'', JInt 2),
            (''item_id'', JStr ''ITEM-1111''), (''status'', JStr ''approved'')]) =
      JObj [(''claim_id'', JStr ''CLM-1234''), (''user_id'', JInt 2),
            (''item_id'', JStr ''ITEM-1111''), (''status'', JStr ''approved'')]"
    by (simp add: with_status_def)
  have r: "returned_store\<lparr>claims := JList [JObj [(''claim_id'', JStr ''CLM-1234''), (''user_id'', JInt 2),
            (''item_id'', JStr ''ITEM-1111''), (''status'', JStr ''approved'')]], items := its\<rparr>
       = returned_store\<lparr>items := its\<rparr>" for its
    by (simp add: returned_store_def)
  have t: "approve_claim ''CLM-1234'' returned_store (save_all returned_store fresh_disk) =
     (Returned True,
      returned_store\<lparr>items := JList
         [JObj [(''item_id'', JStr ''ITEM-1111''), (''name'', JStr ''Wallet''),
                (''description'', JStr ''Black leather''), (''location'', JStr ''Library''),
                (''item_type'', JStr ''lost''), (''status'', JStr ''claimed'')]]\<rparr>,
      save_all (returned_store\<lparr>items := JList
         [JObj [(''item_id'', JStr ''ITEM-1111''), (''name'', JStr ''Wallet''),
                (''description'', JStr ''Black leather''), (''location'', JStr ''Library''),
                (''item_type'', JStr ''lost''), (''status'', JStr ''claimed'')]]\<rparr>) fresh_disk)"
    using C10_approve_ignores_item_status[OF a b c d e f g, of "save_all returned_store fresh_disk", THEN conjunct1]
    by (simp add: m w r save_all_twice)
  from a d f t show ?thesis by (intro conjI)
qed

end
